theory Spec2Isabelle
  imports Complex_Main
begin

section \<open>Error estimators of fem/estimators.cpp\<close>

text \<open>
  A shallow embedding of the four \<open>ComputeEstimates\<close> methods of
  \<^verbatim>\<open>fem/estimators.cpp\<close>. A C++ \<open>double\<close> is a \<open>real\<close>: rounding, infinities
  and NaN are not represented. Everything the methods ask of the mesh, the
  finite element spaces, the grid functions, the integrators and the dense
  linear algebra is a field of one of the records below, named after the call
  in the source.
\<close>

subsection \<open>Data\<close>

type_synonym Vector = "real list"

type_synonym DenseMatrix = "real list list"

record IntegrationPoint =
  ip_x :: real
  ip_y :: real
  ip_z :: real
  weight :: real

text \<open>An integration rule: the polynomial degree it integrates exactly and its points.\<close>

record IntegrationRule =
  rule_degree :: int
  IntPoint :: "IntegrationPoint list"

text \<open>
  A \<open>ParGridFunction\<close> as the Kelly estimator uses it: the local degrees of
  freedom, and the values of the face-neighbour elements.
\<close>

record ParGridFunction =
  gf_data :: "nat \<Rightarrow> real"
  face_nbr_data :: "nat \<Rightarrow> real"

text \<open>
  The object \<open>FT\<close> returned by \<open>GetFaceElementTransformations\<close> and
  \<open>GetSharedFaceTransformations\<close>. \<open>Face\<close> and \<open>Loc1.Transf\<close> are evaluated at
  the integration point last given to their \<open>SetIntPoint\<close>, which is the
  argument of \<open>Face_Jacobian\<close>, \<open>Face_Weight\<close> and \<open>Loc1_Transf_Jacobian\<close>
  (\<open>None\<close>: no point set since the transformation was handed out).
  \<open>ComputeEstimates\<close> never sets a point on the transformation of element 1,
  so its adjugate Jacobian and weight are one value per face.
\<close>

record FaceElementTransformations =
  Elem1No :: int
  Elem2No :: int
  Elem1_Attribute :: int
  Elem2_Attribute :: int
  FaceGeom :: nat
  Loc1_Transform :: "IntegrationPoint \<Rightarrow> IntegrationPoint"
  Loc2_Transform :: "IntegrationPoint \<Rightarrow> IntegrationPoint"
  Face_Jacobian :: "IntegrationPoint option \<Rightarrow> DenseMatrix"
  Face_Weight :: "IntegrationPoint option \<Rightarrow> real"
  Loc1_Transf_Jacobian :: "IntegrationPoint option \<Rightarrow> DenseMatrix"
  Elem1_AdjugateJacobian :: DenseMatrix
  Elem1_Weight :: real

text \<open>The integration points currently set on \<open>FT->Face\<close> and on \<open>FT->Loc1.Transf\<close>.\<close>

record TransfState =
  Face_IntPoint :: "IntegrationPoint option"
  Loc1_IntPoint :: "IntegrationPoint option"

text \<open>The state of a finite element space that \<open>Update\<close> may change.\<close>

record FiniteElementSpace =
  fes_sequence :: int

text \<open>The queries on the (parallel) mesh.\<close>

record ParMesh =
  GetNE :: nat
  GetSequence :: int
  GetNumFaces :: nat
  GetNSharedFaces :: nat
  Dimension :: nat
  SpaceDimension :: nat
  GetFaceElementTransformations :: "nat \<Rightarrow> FaceElementTransformations"
  GetSharedFaceTransformations :: "nat \<Rightarrow> FaceElementTransformations"
  FaceIsInterior :: "nat \<Rightarrow> bool"
  GetFaceInfos_NCFace :: "nat \<Rightarrow> int"
  GetSharedFace :: "nat \<Rightarrow> nat"

text \<open>
  The queries on the solution, its space \<open>xfes\<close> and the flux space, and the
  collaborators of the Kelly estimator. \<open>assert_enabled\<close> tells whether
  \<open>MFEM_ASSERT\<close> is compiled to a check; \<open>MFEM_VERIFY\<close> always is one.
  \<open>GetNE\<close> of a space is \<open>GetNE\<close> of its mesh.
\<close>

record Collaborators =
  assert_enabled :: bool
  Update :: "FiniteElementSpace \<Rightarrow> FiniteElementSpace"
  GetVDim :: int
  GetAttribute :: "nat \<Rightarrow> int"
  GetFaceOrder :: "nat \<Rightarrow> int"
  GetElementVDofs :: "nat \<Rightarrow> int list"
  GetSubVector :: "int list \<Rightarrow> Vector"
  ComputeElementFlux :: "nat \<Rightarrow> Vector \<Rightarrow> Vector"
  flux_GetElementVDofs :: "nat \<Rightarrow> nat list"
  ExchangeFaceNbrData :: "ParGridFunction \<Rightarrow> ParGridFunction"
  GetVectorValue :: "ParGridFunction \<Rightarrow> int \<Rightarrow> IntegrationPoint \<Rightarrow> Vector"
  IntRules_Get :: "nat \<Rightarrow> int \<Rightarrow> IntegrationRule"
  CalcOrtho :: "DenseMatrix \<Rightarrow> Vector"
  MultTranspose :: "DenseMatrix \<Rightarrow> Vector \<Rightarrow> Vector"
  compute_face_coefficient :: "nat \<Rightarrow> bool \<Rightarrow> real"
  compute_element_coefficient :: "nat \<Rightarrow> real"

datatype error = AssertFailed | VerifyFailed | IndexOutOfRange

text \<open>
  The members that the \<open>ComputeEstimates\<close> methods write. A class that does not
  have one of them never touches it.
\<close>

record Estimator =
  error_estimates :: Vector
  total_error :: real
  current_sequence :: int
  aniso_flags :: "int list"
  flux_space :: FiniteElementSpace
  smooth_flux_space :: FiniteElementSpace

subsection \<open>Vectors and arrays\<close>

text \<open>\<open>Array<int>::Find\<close>: the index of the first occurrence, or -1.\<close>

fun Find :: "int list \<Rightarrow> int \<Rightarrow> int" where
  "Find [] a = -1"
| "Find (b # bs) a = (if b = a then 0 else (let r = Find bs a in if r = -1 then -1 else r + 1))"

text \<open>\<open>Vector * Vector\<close>, the scalar product of two vectors of one size.\<close>

definition dot :: "Vector \<Rightarrow> Vector \<Rightarrow> real" where
  "dot u v = sum_list (map2 (*) u v)"

definition Neg :: "Vector \<Rightarrow> Vector" where
  "Neg v = map uminus v"

text \<open>
  \<open>Vector /= c\<close>. For \<open>c = 0\<close> the C++ yields infinities or NaN; the quotient
  of the model is only meaningful for a weight other than zero.
\<close>

definition vec_div :: "Vector \<Rightarrow> real \<Rightarrow> Vector" where
  "vec_div v c = map (\<lambda>a. a / c) v"

text \<open>
  \<open>v(i) += a\<close>. An index outside the vector is outside what C++ defines;
  the model stops there, with the vector as it is.
\<close>

definition add_at :: "Vector \<Rightarrow> int \<Rightarrow> real \<Rightarrow> Vector + Vector" where
  "add_at v i a =
     (if 0 \<le> i \<and> i < int (length v) then Inr (v[nat i := v ! nat i + a]) else Inl v)"

text \<open>
  \<open>Vector::SetSize\<close> keeps the entries it can and leaves new ones
  uninitialised; \<open>fill\<close> stands for what they hold.
\<close>

definition SetSize :: "real \<Rightarrow> nat \<Rightarrow> Vector \<Rightarrow> Vector" where
  "SetSize fill n v = take n v @ replicate (n - length v) fill"

subsection \<open>Kelly estimator: flux recovery\<close>

definition excluded :: "int list \<Rightarrow> int \<Rightarrow> bool" where
  "excluded attributes attr = (length attributes \<noteq> 0 \<and> Find attributes attr = -1)"

text \<open>
  Modelled from the spec: \<open>AddElementVector\<close> is not in this file; the local
  contribution is added, not written, at the degrees of freedom of the element.
\<close>

fun AddElementVector :: "nat list \<Rightarrow> Vector \<Rightarrow> (nat \<Rightarrow> real) \<Rightarrow> (nat \<Rightarrow> real)" where
  "AddElementVector (j # js) (a # as) d = AddElementVector js as (d(j := d j + a))"
| "AddElementVector _ _ d = d"

definition flux_element :: "Collaborators \<Rightarrow> int list \<Rightarrow> nat \<Rightarrow> ParGridFunction \<Rightarrow> ParGridFunction" where
  "flux_element ext attributes e flux =
     (let attr = GetAttribute ext e in
      if excluded attributes attr then flux
      else
        let xdofs = GetElementVDofs ext e;
            el_x = GetSubVector ext xdofs;
            el_f = ComputeElementFlux ext e el_x;
            fdofs = flux_GetElementVDofs ext e
        in flux\<lparr>gf_data := AddElementVector fdofs el_f (gf_data flux)\<rparr>)"

text \<open>\<open>ParGridFunction flux(flux_space); flux = 0.0;\<close> and the loop over the elements.\<close>

definition compute_fluxes :: "ParMesh \<Rightarrow> Collaborators \<Rightarrow> int list \<Rightarrow> ParGridFunction" where
  "compute_fluxes pmesh ext attributes =
     fold (flux_element ext attributes) [0..<GetNE pmesh]
       \<lparr>gf_data = (\<lambda>j. 0), face_nbr_data = (\<lambda>j. 0)\<rparr>"

subsection \<open>Kelly estimator: the jumps on one face\<close>

text \<open>
  The normal in the branch for a mesh embedded in a space of another
  dimension, with \<open>Loc1.Transf\<close> at the point \<open>loc1_ip\<close>: \<open>CalcOrtho\<close> of its
  Jacobian, \<open>e1.AdjugateJacobian().MultTranspose\<close>, and the division by
  \<open>e1.Weight()\<close>.
\<close>

definition embedded_normal ::
  "Collaborators \<Rightarrow> FaceElementTransformations \<Rightarrow> IntegrationPoint option \<Rightarrow> Vector" where
  "embedded_normal ext FT loc1_ip =
     (let ref_normal = CalcOrtho ext (Loc1_Transf_Jacobian FT loc1_ip);
          normal = MultTranspose ext (Elem1_AdjugateJacobian FT) ref_normal
      in vec_div normal (Elem1_Weight FT))"

text \<open>
  The normal at a face point, as all four point loops compute it. \<open>set_loc1\<close>
  tells whether the loop calls \<open>FT->Loc1.Transf.SetIntPoint(&fip)\<close> in the
  branch for an embedded mesh: the loops over side 1 and the local loop over
  side 2 do, the shared loop over side 2 does not.
\<close>

definition face_normal ::
  "ParMesh \<Rightarrow> Collaborators \<Rightarrow> FaceElementTransformations \<Rightarrow> bool \<Rightarrow>
   IntegrationPoint \<Rightarrow> TransfState \<Rightarrow> Vector \<times> TransfState" where
  "face_normal pmesh ext FT set_loc1 fip st =
     (let st1 = st\<lparr>Face_IntPoint := Some fip\<rparr> in
      if Dimension pmesh = SpaceDimension pmesh
      then (CalcOrtho ext (Face_Jacobian FT (Face_IntPoint st1)), st1)
      else
        let st2 = (if set_loc1 then st1\<lparr>Loc1_IntPoint := Some fip\<rparr> else st1)
        in (embedded_normal ext FT (Loc1_IntPoint st2), st2))"

text \<open>The body of the loop over side 1: the value of \<open>jumps(i)\<close> it assigns.\<close>

definition side1_point ::
  "ParMesh \<Rightarrow> Collaborators \<Rightarrow> ParGridFunction \<Rightarrow> FaceElementTransformations \<Rightarrow>
   IntegrationPoint \<Rightarrow> TransfState \<Rightarrow> real \<times> TransfState" where
  "side1_point pmesh ext flux FT fip st =
     (let ip = Loc1_Transform FT fip;
          val = GetVectorValue ext flux (Elem1No FT) ip;
          (normal, st') = face_normal pmesh ext FT True fip st
      in (dot val normal * weight fip * Face_Weight FT (Face_IntPoint st'), st'))"

text \<open>The body of the loop over side 2: \<open>jumps(i)\<close> after \<open>-=\<close>, from its value before.\<close>

definition side2_point ::
  "ParMesh \<Rightarrow> Collaborators \<Rightarrow> ParGridFunction \<Rightarrow> FaceElementTransformations \<Rightarrow> bool \<Rightarrow>
   IntegrationPoint \<Rightarrow> real \<Rightarrow> TransfState \<Rightarrow> real \<times> TransfState" where
  "side2_point pmesh ext flux FT set_loc1 fip jump st =
     (let ip = Loc2_Transform FT fip;
          val = GetVectorValue ext flux (Elem2No FT) ip;
          (normal, st') = face_normal pmesh ext FT set_loc1 fip st;
          normal = Neg normal
      in (jump - dot val normal * weight fip * Face_Weight FT (Face_IntPoint st'), st'))"

fun side1_loop ::
  "ParMesh \<Rightarrow> Collaborators \<Rightarrow> ParGridFunction \<Rightarrow> FaceElementTransformations \<Rightarrow>
   IntegrationPoint list \<Rightarrow> TransfState \<Rightarrow> Vector \<times> TransfState" where
  "side1_loop pmesh ext flux FT [] st = ([], st)"
| "side1_loop pmesh ext flux FT (fip # fips) st =
     (let (j, st1) = side1_point pmesh ext flux FT fip st;
          (js, st2) = side1_loop pmesh ext flux FT fips st1
      in (j # js, st2))"

fun side2_loop ::
  "ParMesh \<Rightarrow> Collaborators \<Rightarrow> ParGridFunction \<Rightarrow> FaceElementTransformations \<Rightarrow> bool \<Rightarrow>
   IntegrationPoint list \<Rightarrow> Vector \<Rightarrow> TransfState \<Rightarrow> Vector \<times> TransfState" where
  "side2_loop pmesh ext flux FT set_loc1 (fip # fips) (j # js) st =
     (let (j', st1) = side2_point pmesh ext flux FT set_loc1 fip j st;
          (js', st2) = side2_loop pmesh ext flux FT set_loc1 fips js st1
      in (j' # js', st2))"
| "side2_loop pmesh ext flux FT set_loc1 fips js st = (js, st)"

text \<open>
  \<open>jumps\<close> after both point loops of one face. The transformations come
  fresh from the mesh, with no integration point set.
\<close>

definition face_jumps ::
  "ParMesh \<Rightarrow> Collaborators \<Rightarrow> ParGridFunction \<Rightarrow> FaceElementTransformations \<Rightarrow> bool \<Rightarrow>
   IntegrationRule \<Rightarrow> Vector" where
  "face_jumps pmesh ext flux FT set_loc1 int_rule =
     (let st0 = \<lparr>Face_IntPoint = None, Loc1_IntPoint = None\<rparr>;
          (jumps1, st1) = side1_loop pmesh ext flux FT (IntPoint int_rule) st0;
          (jumps2, st2) = side2_loop pmesh ext flux FT set_loc1 (IntPoint int_rule) jumps1 st1
      in jumps2)"

text \<open>
  The two products of one point in the branch for an embedded mesh: what the
  loop over side 1 assigns, and what the loop over side 2 subtracts when
  \<open>Loc1.Transf\<close> holds the point \<open>loc1_ip\<close>.
\<close>

definition side1_value ::
  "Collaborators \<Rightarrow> ParGridFunction \<Rightarrow> FaceElementTransformations \<Rightarrow> IntegrationPoint \<Rightarrow> real" where
  "side1_value ext flux FT fip =
     dot (GetVectorValue ext flux (Elem1No FT) (Loc1_Transform FT fip))
       (embedded_normal ext FT (Some fip)) * weight fip * Face_Weight FT (Some fip)"

definition side2_value ::
  "Collaborators \<Rightarrow> ParGridFunction \<Rightarrow> FaceElementTransformations \<Rightarrow> IntegrationPoint option \<Rightarrow>
   IntegrationPoint \<Rightarrow> real" where
  "side2_value ext flux FT loc1_ip fip =
     dot (GetVectorValue ext flux (Elem2No FT) (Loc2_Transform FT fip))
       (Neg (embedded_normal ext FT loc1_ip)) * weight fip * Face_Weight FT (Some fip)"

text \<open>\<open>jumps(i) *= jumps(i)\<close> for every point, then \<open>h_k_face*jumps.Sum()\<close>.\<close>

definition jump_integral :: "real \<Rightarrow> Vector \<Rightarrow> real" where
  "jump_integral h_k_face jumps = h_k_face * sum_list (map (\<lambda>j. j * j) jumps)"

text \<open>
  The flux jump as the specification words it, for comparison: the flux of
  side 1 minus the flux of side 2, dotted with the outward normal of side 1,
  times the quadrature weight and the weight of the face Jacobian.
\<close>

definition spec_flux_jump :: "Vector \<Rightarrow> Vector \<Rightarrow> Vector \<Rightarrow> real \<Rightarrow> real \<Rightarrow> real" where
  "spec_flux_jump val1 val2 normal w face_weight =
     dot (map2 (-) val1 val2) normal * w * face_weight"

subsection \<open>Kelly estimator: the two face loops\<close>

text \<open>The convention that decides which local face is integrated.\<close>

definition face_selected :: "ParMesh \<Rightarrow> nat \<Rightarrow> bool" where
  "face_selected pmesh f =
     (let FT = GetFaceElementTransformations pmesh f in
      FaceIsInterior pmesh f \<and>
      (let NCFace = GetFaceInfos_NCFace pmesh f;
           isNCSlave = (Elem2No FT \<ge> 0 \<and> NCFace \<ge> 0);
           isConforming = (Elem2No FT \<ge> 0 \<and> NCFace = -1)
       in (Elem1No FT < Elem2No FT \<and> isConforming) \<or> isNCSlave))"

definition face_excluded :: "int list \<Rightarrow> FaceElementTransformations \<Rightarrow> bool" where
  "face_excluded attributes FT =
     (length attributes \<noteq> 0 \<and>
      (Find attributes (Elem1_Attribute FT) = -1 \<or> Find attributes (Elem2_Attribute FT) = -1))"

definition local_face_rule :: "ParMesh \<Rightarrow> Collaborators \<Rightarrow> nat \<Rightarrow> IntegrationRule" where
  "local_face_rule pmesh ext f =
     IntRules_Get ext (FaceGeom (GetFaceElementTransformations pmesh f)) (2 * GetFaceOrder ext f)"

definition local_jump_integral ::
  "ParMesh \<Rightarrow> Collaborators \<Rightarrow> ParGridFunction \<Rightarrow> nat \<Rightarrow> real" where
  "local_jump_integral pmesh ext flux f =
     (let FT = GetFaceElementTransformations pmesh f;
          jumps = face_jumps pmesh ext flux FT True (local_face_rule pmesh ext f);
          h_k_face = compute_face_coefficient ext f False
      in jump_integral h_k_face jumps)"

text \<open>
  The two lines \<open>error_estimates(FT->Elem1No) += jump_integral\<close> and
  \<open>error_estimates(FT->Elem2No) += jump_integral\<close> of a local face.
\<close>

definition integrate_local_face ::
  "ParMesh \<Rightarrow> Collaborators \<Rightarrow> ParGridFunction \<Rightarrow> nat \<Rightarrow> Vector \<Rightarrow> Vector + Vector" where
  "integrate_local_face pmesh ext flux f est =
     (let FT = GetFaceElementTransformations pmesh f;
          jump_integral = local_jump_integral pmesh ext flux f
      in case add_at est (Elem1No FT) jump_integral of
           Inl v \<Rightarrow> Inl v
         | Inr est1 \<Rightarrow> add_at est1 (Elem2No FT) jump_integral)"

text \<open>The body of the loop over the local faces, on \<open>error_estimates\<close>.\<close>

definition local_face ::
  "ParMesh \<Rightarrow> Collaborators \<Rightarrow> int list \<Rightarrow> ParGridFunction \<Rightarrow> nat \<Rightarrow> Vector \<Rightarrow> Vector + Vector" where
  "local_face pmesh ext attributes flux f est =
     (let FT = GetFaceElementTransformations pmesh f in
      if face_selected pmesh f then
        if face_excluded attributes FT then Inr est
        else integrate_local_face pmesh ext flux f est
      else Inr est)"

text \<open>
  What local face \<open>f\<close> is to add to the error sum of element \<open>e\<close>: its
  scalar contribution for each of its two sides that is \<open>e\<close>, when the face is
  selected and passes the attribute filter, and nothing otherwise.
\<close>

definition local_contribution ::
  "ParMesh \<Rightarrow> Collaborators \<Rightarrow> int list \<Rightarrow> ParGridFunction \<Rightarrow> nat \<Rightarrow> nat \<Rightarrow> real" where
  "local_contribution pmesh ext attributes flux f e =
     (let FT = GetFaceElementTransformations pmesh f in
      if face_selected pmesh f \<and> \<not> face_excluded attributes FT
      then (if int e = Elem1No FT then local_jump_integral pmesh ext flux f else 0) +
           (if int e = Elem2No FT then local_jump_integral pmesh ext flux f else 0)
      else 0)"

definition shared_face_rule :: "ParMesh \<Rightarrow> Collaborators \<Rightarrow> nat \<Rightarrow> IntegrationRule" where
  "shared_face_rule pmesh ext sf =
     IntRules_Get ext (FaceGeom (GetSharedFaceTransformations pmesh sf)) (2 * GetFaceOrder ext 0)"

definition shared_jump_integral ::
  "ParMesh \<Rightarrow> Collaborators \<Rightarrow> ParGridFunction \<Rightarrow> nat \<Rightarrow> real" where
  "shared_jump_integral pmesh ext flux sf =
     (let FT = GetSharedFaceTransformations pmesh sf;
          jumps = face_jumps pmesh ext flux FT False (shared_face_rule pmesh ext sf);
          h_k_face = compute_face_coefficient ext sf True
      in jump_integral h_k_face jumps)"

text \<open>The body of the loop over the shared faces.\<close>

definition shared_face ::
  "ParMesh \<Rightarrow> Collaborators \<Rightarrow> int list \<Rightarrow> ParGridFunction \<Rightarrow> nat \<Rightarrow> Vector \<Rightarrow> Vector + Vector" where
  "shared_face pmesh ext attributes flux sf est =
     (let FT = GetSharedFaceTransformations pmesh sf in
      if face_excluded attributes FT then Inr est
      else add_at est (Elem1No FT) (shared_jump_integral pmesh ext flux sf))"

text \<open>A loop over faces stops at the first failure of its body.\<close>

fun face_loop :: "(nat \<Rightarrow> Vector \<Rightarrow> Vector + Vector) \<Rightarrow> nat list \<Rightarrow> Vector \<Rightarrow> Vector + Vector" where
  "face_loop body [] est = Inr est"
| "face_loop body (f # fs) est =
     (case body f est of Inl v \<Rightarrow> Inl v | Inr est' \<Rightarrow> face_loop body fs est')"

text \<open>
  The error sums of the elements after both face loops, from zero:
  steps 2 and 3 of \<open>KellyErrorEstimator::ComputeEstimates\<close>.
\<close>

definition accumulate :: "ParMesh \<Rightarrow> Collaborators \<Rightarrow> int list \<Rightarrow> Vector + Vector" where
  "accumulate pmesh ext attributes =
     (let flux = compute_fluxes pmesh ext attributes in
      case face_loop (local_face pmesh ext attributes flux) [0..<GetNumFaces pmesh]
             (replicate (GetNE pmesh) 0) of
        Inl v \<Rightarrow> Inl v
      | Inr est1 \<Rightarrow>
          let flux' = ExchangeFaceNbrData ext flux in
          face_loop (shared_face pmesh ext attributes flux') [0..<GetNSharedFaces pmesh] est1)"

subsection \<open>Kelly estimator: the element errors and the global error\<close>

text \<open>
  \<open>error_estimates(e) = sqrt(factor * error_estimates(e))\<close> for every element.
  On a negative argument C++ yields NaN, which \<open>sqrt\<close> of the model does not
  show: the results on the final values are for coefficients that are not negative.
\<close>

definition finalize :: "ParMesh \<Rightarrow> Collaborators \<Rightarrow> Vector \<Rightarrow> Vector" where
  "finalize pmesh ext est =
     fold (\<lambda>e v. v[e := sqrt (compute_element_coefficient ext e * v ! e)]) [0..<GetNE pmesh] est"

text \<open>
  Modelled from the spec: \<open>MPI_Allreduce\<close> with \<open>MPI_SUM\<close> is not in this file;
  it is one additive reduction of one double over the processes of the
  communicator. \<open>others\<close> holds what the other processes contribute.
\<close>

definition MPI_Allreduce_SUM :: "real \<Rightarrow> real list \<Rightarrow> real" where
  "MPI_Allreduce_SUM mine others = mine + sum_list others"

definition Kelly_ComputeEstimates ::
  "ParMesh \<Rightarrow> Collaborators \<Rightarrow> int list \<Rightarrow> real list \<Rightarrow> Estimator \<Rightarrow> (error \<times> Estimator) + Estimator" where
  "Kelly_ComputeEstimates pmesh ext attributes others this =
     (let this1 = this\<lparr>flux_space := Update ext (flux_space this)\<rparr> in
      if assert_enabled ext \<and> GetVDim ext \<noteq> 1 then Inl (AssertFailed, this1)
      else
        let this2 = this1\<lparr>error_estimates := replicate (GetNE pmesh) 0\<rparr> in
        case accumulate pmesh ext attributes of
          Inl v \<Rightarrow> Inl (IndexOutOfRange, this2\<lparr>error_estimates := v\<rparr>)
        | Inr est \<Rightarrow>
            let this3 = this2\<lparr>error_estimates := finalize pmesh ext est\<rparr>;
                this4 = this3\<lparr>current_sequence := GetSequence pmesh\<rparr>;
                process_local_error = sum_list (error_estimates this4)
            in Inr (this4\<lparr>total_error := MPI_Allreduce_SUM process_local_error others\<rparr>))"

subsection \<open>The sibling estimators\<close>

text \<open>
  The members that constructors and setters write and \<open>ComputeEstimates\<close> only
  reads. A coefficient is known by a handle; \<open>None\<close> is the null pointer.
\<close>

record Settings =
  anisotropic :: bool
  flux_averaging :: int
  with_coeff :: bool
  local_norm_p :: real
  coef :: "nat option"
  vcoef :: "nat option"

text \<open>What the recovery routines called by the sibling estimators compute.\<close>

record Recovery =
  ZZ_total :: "int \<Rightarrow> bool \<Rightarrow> real"
  ZZ_element :: "int \<Rightarrow> bool \<Rightarrow> nat \<Rightarrow> real"
  ZZ_aniso_flag :: "int \<Rightarrow> bool \<Rightarrow> nat \<Rightarrow> int"
  L2ZZ_total :: "real \<Rightarrow> real \<Rightarrow> int \<Rightarrow> real"
  L2ZZ_element :: "real \<Rightarrow> real \<Rightarrow> int \<Rightarrow> nat \<Rightarrow> real"
  Lp_element :: "real \<Rightarrow> nat \<Rightarrow> nat \<Rightarrow> real"
  Lp_vector_element :: "real \<Rightarrow> nat \<Rightarrow> nat \<Rightarrow> real"
  uninitialised :: real

text \<open>
  Modelled from the spec: \<open>ZZErrorEstimator\<close> is not in this file. Its output is
  a vector with one entry for every local element and a global scalar; it writes
  the anisotropy flags only when it is given them.
\<close>

definition ZZErrorEstimator ::
  "ParMesh \<Rightarrow> Recovery \<Rightarrow> bool \<Rightarrow> int \<Rightarrow> bool \<Rightarrow> real \<times> Vector \<times> int list option" where
  "ZZErrorEstimator mesh rcv aniso averaging coeff =
     (ZZ_total rcv averaging coeff,
      map (ZZ_element rcv averaging coeff) [0..<GetNE mesh],
      if aniso then Some (map (ZZ_aniso_flag rcv averaging coeff) [0..<GetNE mesh]) else None)"

definition ZZ_ComputeEstimates ::
  "ParMesh \<Rightarrow> Collaborators \<Rightarrow> Recovery \<Rightarrow> Settings \<Rightarrow> Estimator \<Rightarrow> Estimator" where
  "ZZ_ComputeEstimates mesh ext rcv cfg this =
     (let this1 = this\<lparr>flux_space := Update ext (flux_space this)\<rparr>;
          this2 = (if \<not> anisotropic cfg then this1\<lparr>aniso_flags := []\<rparr> else this1);
          (total, est, flags) =
             ZZErrorEstimator mesh rcv (anisotropic cfg) (flux_averaging cfg) (with_coeff cfg);
          this3 = this2\<lparr>error_estimates := est,
                        aniso_flags := (case flags of None \<Rightarrow> aniso_flags this2 | Some fl \<Rightarrow> fl),
                        total_error := total\<rparr>
      in this3\<lparr>current_sequence := GetSequence mesh\<rparr>)"

text \<open>
  Modelled from the spec: \<open>L2ZZErrorEstimator\<close> is not in this file. Its output
  has the shape of the one above; it solves a linear system with the
  tolerance and the iteration cap it is given.
\<close>

definition L2ZZErrorEstimator ::
  "ParMesh \<Rightarrow> Recovery \<Rightarrow> real \<Rightarrow> real \<Rightarrow> int \<Rightarrow> real \<times> Vector" where
  "L2ZZErrorEstimator mesh rcv norm_p solver_tol solver_max_it =
     (L2ZZ_total rcv norm_p solver_tol solver_max_it,
      map (L2ZZ_element rcv norm_p solver_tol solver_max_it) [0..<GetNE mesh])"

definition L2ZZ_ComputeEstimates ::
  "ParMesh \<Rightarrow> Collaborators \<Rightarrow> Recovery \<Rightarrow> Settings \<Rightarrow> Estimator \<Rightarrow> Estimator" where
  "L2ZZ_ComputeEstimates mesh ext rcv cfg this =
     (let this1 = this\<lparr>flux_space := Update ext (flux_space this)\<rparr>;
          this2 = this1\<lparr>smooth_flux_space := Update ext (smooth_flux_space this1)\<rparr>;
          solver_tol = 1 / 10 ^ 12;
          solver_max_it = 200;
          (total, est) = L2ZZErrorEstimator mesh rcv (local_norm_p cfg) solver_tol solver_max_it;
          this3 = this2\<lparr>error_estimates := est, total_error := total\<rparr>
      in this3\<lparr>current_sequence := GetSequence mesh\<rparr>)"

text \<open>
  Modelled from the spec: \<open>ComputeElementLpErrors\<close> is not in this file. It
  writes every entry of the vector it is given, which has one entry for every
  element.
\<close>

definition ComputeElementLpErrors :: "(nat \<Rightarrow> real) \<Rightarrow> Vector \<Rightarrow> Vector" where
  "ComputeElementLpErrors element_error est = map element_error [0..<length est]"

text \<open>
  \<open>MFEM_VERIFY\<close> lets the method go on only with one of the two coefficients,
  so the \<open>else\<close> of \<open>if (coef)\<close> has \<open>vcoef\<close>.
\<close>

definition Lp_ComputeEstimates ::
  "ParMesh \<Rightarrow> Recovery \<Rightarrow> Settings \<Rightarrow> Estimator \<Rightarrow> (error \<times> Estimator) + Estimator" where
  "Lp_ComputeEstimates mesh rcv cfg this =
     (case (coef cfg, vcoef cfg) of
        (None, None) \<Rightarrow> Inl (VerifyFailed, this)
      | (Some c, _) \<Rightarrow>
          let this1 = this\<lparr>error_estimates :=
                        SetSize (uninitialised rcv) (GetNE mesh) (error_estimates this)\<rparr>;
              this2 = this1\<lparr>error_estimates :=
                        ComputeElementLpErrors (Lp_element rcv (local_norm_p cfg) c)
                          (error_estimates this1)\<rparr>
          in Inr (this2\<lparr>current_sequence := GetSequence mesh\<rparr>)
      | (None, Some vc) \<Rightarrow>
          let this1 = this\<lparr>error_estimates :=
                        SetSize (uninitialised rcv) (GetNE mesh) (error_estimates this)\<rparr>;
              this2 = this1\<lparr>error_estimates :=
                        ComputeElementLpErrors (Lp_vector_element rcv (local_norm_p cfg) vc)
                          (error_estimates this1)\<rparr>
          in Inr (this2\<lparr>current_sequence := GetSequence mesh\<rparr>))"

subsection \<open>A mesh of three elements on a line\<close>

text \<open>
  Elements 0, 1, 2 in a row, with attributes 1, 1, 2. Face 0 lies between
  elements 0 and 1, face 1 between elements 1 and 2, face 2 is the boundary at
  the end of element 2, and face 3 is shared with the element of a neighbour
  process, which has the number 3 here. The flux is constant 1 on every
  element, so it is continuous across every face.
\<close>

definition ex_ip :: IntegrationPoint where
  "ex_ip = \<lparr>ip_x = 1 / 2, ip_y = 0, ip_z = 0, weight = 1\<rparr>"

definition ex_FT :: "int \<Rightarrow> int \<Rightarrow> int \<Rightarrow> int \<Rightarrow> FaceElementTransformations" where
  "ex_FT e1 a1 e2 a2 =
     \<lparr>Elem1No = e1, Elem2No = e2, Elem1_Attribute = a1, Elem2_Attribute = a2, FaceGeom = 0,
      Loc1_Transform = (\<lambda>p. p), Loc2_Transform = (\<lambda>p. p),
      Face_Jacobian = (\<lambda>p. [[1]]), Face_Weight = (\<lambda>p. 1),
      Loc1_Transf_Jacobian = (\<lambda>p. case p of None \<Rightarrow> [[0]] | Some q \<Rightarrow> [[ip_x q]]),
      Elem1_AdjugateJacobian = [[1]], Elem1_Weight = 1\<rparr>"

definition ex_faces :: "nat \<Rightarrow> FaceElementTransformations" where
  "ex_faces f =
     (if f = 0 then ex_FT 0 1 1 1 else if f = 1 then ex_FT 1 1 2 2
      else if f = 2 then ex_FT 2 2 (-1) 0 else ex_FT 0 1 (-1) 0)"

definition ex_pmesh :: ParMesh where
  "ex_pmesh =
     \<lparr>GetNE = 3, GetSequence = 7, GetNumFaces = 4, GetNSharedFaces = 1,
      Dimension = 1, SpaceDimension = 1,
      GetFaceElementTransformations = ex_faces,
      GetSharedFaceTransformations = (\<lambda>sf. ex_FT 0 1 3 1),
      FaceIsInterior = (\<lambda>f. f < 2), GetFaceInfos_NCFace = (\<lambda>f. -1),
      GetSharedFace = (\<lambda>sf. 3)\<rparr>"

text \<open>The same mesh with every face marked non-conforming, and embedded in the plane.\<close>

definition ex_nc_pmesh :: ParMesh where
  "ex_nc_pmesh = ex_pmesh\<lparr>GetFaceInfos_NCFace := (\<lambda>f. 0)\<rparr>"

text \<open>
  A mesh of one conforming interior face whose first element has the greater
  number: element 1 on side 1 and element 0 on side 2.
\<close>

definition ex_rev_pmesh :: ParMesh where
  "ex_rev_pmesh =
     ex_pmesh\<lparr>GetNumFaces := 1, GetFaceElementTransformations := (\<lambda>f. ex_FT 1 1 0 1)\<rparr>"

definition ex_embedded_pmesh :: ParMesh where
  "ex_embedded_pmesh = ex_pmesh\<lparr>SpaceDimension := 2\<rparr>"

definition ex_ext :: Collaborators where
  "ex_ext =
     \<lparr>assert_enabled = True,
      Update = (\<lambda>fes. fes\<lparr>fes_sequence := 7\<rparr>),
      GetVDim = 1,
      GetAttribute = (\<lambda>e. if e = 2 then 2 else 1),
      GetFaceOrder = (\<lambda>f. if f = 0 then 1 else 2),
      GetElementVDofs = (\<lambda>e. [int e]),
      GetSubVector = (\<lambda>dofs. map real_of_int dofs),
      ComputeElementFlux = (\<lambda>e el_x. [1]),
      flux_GetElementVDofs = (\<lambda>e. [e]),
      ExchangeFaceNbrData = (\<lambda>flux. flux\<lparr>face_nbr_data := (\<lambda>j. 1)\<rparr>),
      GetVectorValue = (\<lambda>flux i ip.
         [if i < 3 then gf_data flux (nat i) else face_nbr_data flux (nat (i - 3))]),
      IntRules_Get = (\<lambda>g n. \<lparr>rule_degree = n, IntPoint = [ex_ip]\<rparr>),
      CalcOrtho = (\<lambda>J. map hd J),
      MultTranspose = (\<lambda>A v. v),
      compute_face_coefficient = (\<lambda>f shared. 1 / 4),
      compute_element_coefficient = (\<lambda>e. if e = 2 then 4 else 2)\<rparr>"

definition ex_this :: Estimator where
  "ex_this =
     \<lparr>error_estimates = [], total_error = 0, current_sequence = 6, aniso_flags = [],
      flux_space = \<lparr>fes_sequence = 6\<rparr>, smooth_flux_space = \<lparr>fes_sequence = 6\<rparr>\<rparr>"

definition ex_cfg :: Settings where
  "ex_cfg =
     \<lparr>anisotropic = False, flux_averaging = 0, with_coeff = False, local_norm_p = 1,
      coef = Some 0, vcoef = None\<rparr>"

definition ex_rcv :: Recovery where
  "ex_rcv =
     \<lparr>ZZ_total = (\<lambda>a c. 3), ZZ_element = (\<lambda>a c e. 1), ZZ_aniso_flag = (\<lambda>a c e. 0),
      L2ZZ_total = (\<lambda>p tol it. if tol = 1 / 10 ^ 12 \<and> it = 200 then 3 else 0),
      L2ZZ_element = (\<lambda>p tol it e. if tol = 1 / 10 ^ 12 \<and> it = 200 then 1 else 0),
      Lp_element = (\<lambda>p c e. 1), Lp_vector_element = (\<lambda>p c e. 1),
      uninitialised = 0\<rparr>"

text \<open>A recovery that answers every tolerance and iteration cap alike.\<close>

definition ex_rcv2 :: Recovery where
  "ex_rcv2 = ex_rcv\<lparr>L2ZZ_total := (\<lambda>p tol it. 3), L2ZZ_element := (\<lambda>p tol it e. 1)\<rparr>"

text \<open>A solution with two components, and a space of one order on every face.\<close>

definition ex_vector_ext :: Collaborators where
  "ex_vector_ext = ex_ext\<lparr>GetVDim := 2\<rparr>"

definition ex_uniform_ext :: Collaborators where
  "ex_uniform_ext = ex_ext\<lparr>GetFaceOrder := (\<lambda>f. 1)\<rparr>"

text \<open>A rule with two points.\<close>

definition ex_ip2 :: IntegrationPoint where
  "ex_ip2 = \<lparr>ip_x = 1, ip_y = 0, ip_z = 0, weight = 1\<rparr>"

definition ex_rule2 :: IntegrationRule where
  "ex_rule2 = \<lparr>rule_degree = 3, IntPoint = [ex_ip, ex_ip2]\<rparr>"

section \<open>Properties\<close>

lemmas ex_defs = ex_pmesh_def ex_ext_def ex_faces_def ex_FT_def ex_ip_def

lemmas point_defs =
  face_jumps_def side1_point_def side2_point_def face_normal_def embedded_normal_def
  dot_def Neg_def vec_div_def

subsection \<open>The accumulator of one quadrature point\<close>

lemma dot_Neg: "dot v (Neg n) = - dot v n"
proof (induction v arbitrary: n)
  case Nil
  show ?case by (simp add: dot_def)
next
  case (Cons a v)
  show ?case using Cons [of "tl n"] by (cases n) (simp_all add: dot_def Neg_def)
qed

text \<open>
  Where the mesh fills its space, the accumulator of a point after the loop
  over side 2 is the sum of the two normal fluxes along the normal of side 1:
  the normal is negated and the product is subtracted.
\<close>

lemma point_accumulator_is_sum:
  assumes "Dimension pmesh = SpaceDimension pmesh"
  shows "fst (side2_point pmesh ext flux FT b fip (fst (side1_point pmesh ext flux FT fip st)) st') =
         (dot (GetVectorValue ext flux (Elem1No FT) (Loc1_Transform FT fip))
              (CalcOrtho ext (Face_Jacobian FT (Some fip)))
          + dot (GetVectorValue ext flux (Elem2No FT) (Loc2_Transform FT fip))
              (CalcOrtho ext (Face_Jacobian FT (Some fip))))
         * weight fip * Face_Weight FT (Some fip)"
  using assms by (simp add: side1_point_def side2_point_def face_normal_def dot_Neg algebra_simps)

text \<open>
  C1. The claim: after the loop over side 2 the accumulator of a point holds
  the flux jump, (flux of side 1 - flux of side 2) . normal of side 1, times the
  two weights, in the local and in the shared pass. On the mesh of three
  elements the flux is 1 on both sides of every face, so the jump is 0; the
  accumulator of the code is 2 on local face 0 and on the shared face.
\<close>

theorem kelly_accumulator_of_continuous_flux:
  "face_jumps ex_pmesh ex_ext (compute_fluxes ex_pmesh ex_ext []) (ex_faces 0) True
     (local_face_rule ex_pmesh ex_ext 0) = [2] \<and>
   face_jumps ex_pmesh ex_ext (ExchangeFaceNbrData ex_ext (compute_fluxes ex_pmesh ex_ext []))
     (GetSharedFaceTransformations ex_pmesh 0) False (shared_face_rule ex_pmesh ex_ext 0) = [2] \<and>
   spec_flux_jump
     (GetVectorValue ex_ext (compute_fluxes ex_pmesh ex_ext []) (Elem1No (ex_faces 0))
        (Loc1_Transform (ex_faces 0) ex_ip))
     (GetVectorValue ex_ext (compute_fluxes ex_pmesh ex_ext []) (Elem2No (ex_faces 0))
        (Loc2_Transform (ex_faces 0) ex_ip))
     (CalcOrtho ex_ext (Face_Jacobian (ex_faces 0) (Some ex_ip)))
     (weight ex_ip) (Face_Weight (ex_faces 0) (Some ex_ip)) = 0"
  by (simp add: ex_defs point_defs compute_fluxes_def upt_rec flux_element_def excluded_def
        local_face_rule_def shared_face_rule_def spec_flux_jump_def)

subsection \<open>Arrays, vectors and the face loops\<close>

lemma Find_ge: "- 1 \<le> Find bs a"
  by (induction bs) (auto simp: Let_def)

lemma Find_minus_one: "Find bs a = - 1 \<longleftrightarrow> a \<notin> set bs"
proof (induction bs)
  case Nil
  show ?case by simp
next
  case (Cons b bs)
  have "- 1 \<le> Find bs a" by (rule Find_ge)
  then show ?case using Cons by (auto simp: Let_def)
qed

lemma excluded_iff: "excluded attributes a \<longleftrightarrow> attributes \<noteq> [] \<and> a \<notin> set attributes"
  by (simp add: excluded_def Find_minus_one)

lemma face_excluded_iff:
  "face_excluded attributes FT \<longleftrightarrow>
     attributes \<noteq> [] \<and> (Elem1_Attribute FT \<notin> set attributes \<or> Elem2_Attribute FT \<notin> set attributes)"
  by (simp add: face_excluded_def Find_minus_one)

lemma add_at_in_range:
  "0 \<le> i \<Longrightarrow> i < int (length v) \<Longrightarrow> add_at v i a = Inr (v[nat i := v ! nat i + a])"
  by (simp add: add_at_def)

lemma add_at_Inr:
  "add_at v i a = Inr v' \<Longrightarrow> 0 \<le> i \<and> i < int (length v) \<and> v' = v[nat i := v ! nat i + a]"
  by (auto simp: add_at_def split: if_splits)

lemma add_at_length: "add_at v i a = Inr v' \<Longrightarrow> length v' = length v"
  by (auto dest: add_at_Inr)

lemma nth_add_at:
  fixes v :: Vector
  assumes "0 \<le> i" "i < int (length v)" "e < length v"
  shows "(v[nat i := v ! nat i + a]) ! e = v ! e + (if int e = i then a else 0)"
proof (cases "int e = i")
  case True
  then have "nat i = e" by simp
  then show ?thesis using assms True by simp
next
  case False
  then have "nat i \<noteq> e" using assms by auto
  then show ?thesis using False by simp
qed

lemma add_at_nonneg:
  assumes "\<forall>x\<in>set v. 0 \<le> x" "0 \<le> a" "add_at v i a = Inr v'"
  shows "\<forall>x\<in>set v'. 0 \<le> x"
proof -
  from assms(3) have r: "0 \<le> i" "i < int (length v)" and v': "v' = v[nat i := v ! nat i + a]"
    by (auto dest: add_at_Inr)
  have "0 \<le> v ! nat i + a" using assms(1,2) r by (simp add: add_nonneg_nonneg)
  then show ?thesis using assms(1) v' by (auto dest!: set_update_subset_insert [THEN subsetD])
qed

lemma jump_integral_nonneg: "0 \<le> h \<Longrightarrow> 0 \<le> jump_integral h js"
proof -
  have "0 \<le> sum_list (map (\<lambda>j. j * j) js)"
    by (rule sum_list_nonneg) auto
  then show "0 \<le> h \<Longrightarrow> 0 \<le> jump_integral h js"
    by (simp add: jump_integral_def)
qed

lemma face_loop_invariant:
  assumes "\<And>f est est'. I est \<Longrightarrow> body f est = Inr est' \<Longrightarrow> I est'"
  shows "I est \<Longrightarrow> face_loop body fs est = Inr est' \<Longrightarrow> I est'"
proof (induction fs arbitrary: est)
  case Nil
  then show ?case by simp
next
  case (Cons f fs)
  then show ?case using assms by (auto split: sum.splits)
qed

lemma integrate_local_face_length:
  "integrate_local_face pmesh ext flux f est = Inr est' \<Longrightarrow> length est' = length est"
  by (auto simp: integrate_local_face_def Let_def split: sum.splits dest!: add_at_length)

lemma local_face_length:
  "local_face pmesh ext attributes flux f est = Inr est' \<Longrightarrow> length est' = length est"
  by (auto simp: local_face_def Let_def split: if_splits dest: integrate_local_face_length)

lemma shared_face_length:
  "shared_face pmesh ext attributes flux sf est = Inr est' \<Longrightarrow> length est' = length est"
  by (auto simp: shared_face_def Let_def split: if_splits dest: add_at_length)

lemma local_face_nonneg:
  assumes c: "\<forall>f shared. 0 \<le> compute_face_coefficient ext f shared"
    and "\<forall>x\<in>set est. 0 \<le> x" "local_face pmesh ext attributes flux f est = Inr est'"
  shows "\<forall>x\<in>set est'. 0 \<le> x"
proof -
  have J: "0 \<le> local_jump_integral pmesh ext flux f"
    using c by (simp add: local_jump_integral_def Let_def jump_integral_nonneg)
  show ?thesis
    using assms(2,3) J
    by (auto simp: local_face_def integrate_local_face_def Let_def split: if_splits sum.splits
             dest!: add_at_nonneg [rotated 2])
qed

lemma shared_face_nonneg:
  assumes c: "\<forall>f shared. 0 \<le> compute_face_coefficient ext f shared"
    and "\<forall>x\<in>set est. 0 \<le> x" "shared_face pmesh ext attributes flux sf est = Inr est'"
  shows "\<forall>x\<in>set est'. 0 \<le> x"
proof -
  have J: "0 \<le> shared_jump_integral pmesh ext flux sf"
    using c by (simp add: shared_jump_integral_def Let_def jump_integral_nonneg)
  show ?thesis
    using assms(2,3) J
    by (auto simp: shared_face_def Let_def split: if_splits dest!: add_at_nonneg [rotated 2])
qed

lemma accumulate_length:
  assumes "accumulate pmesh ext attributes = Inr acc"
  shows "length acc = GetNE pmesh"
proof -
  let ?flux = "compute_fluxes pmesh ext attributes"
  from assms obtain est1 where
    1: "face_loop (local_face pmesh ext attributes ?flux) [0..<GetNumFaces pmesh]
          (replicate (GetNE pmesh) 0) = Inr est1"
    and 2: "face_loop (shared_face pmesh ext attributes (ExchangeFaceNbrData ext ?flux))
          [0..<GetNSharedFaces pmesh] est1 = Inr acc"
    by (auto simp: accumulate_def Let_def split: sum.splits)
  have "length est1 = GetNE pmesh"
    by (rule face_loop_invariant [where I = "\<lambda>v. length v = GetNE pmesh", OF _ _ 1])
       (auto dest: local_face_length)
  then show ?thesis
    by (rule face_loop_invariant [where I = "\<lambda>v. length v = GetNE pmesh", OF _ _ 2, rotated])
       (auto dest: shared_face_length)
qed

lemma accumulate_nonneg:
  assumes c: "\<forall>f shared. 0 \<le> compute_face_coefficient ext f shared"
    and "accumulate pmesh ext attributes = Inr acc"
  shows "\<forall>x\<in>set acc. 0 \<le> x"
proof -
  let ?flux = "compute_fluxes pmesh ext attributes"
  let ?I = "\<lambda>v::Vector. \<forall>x\<in>set v. 0 \<le> x"
  from assms(2) obtain est1 where
    1: "face_loop (local_face pmesh ext attributes ?flux) [0..<GetNumFaces pmesh]
          (replicate (GetNE pmesh) 0) = Inr est1"
    and 2: "face_loop (shared_face pmesh ext attributes (ExchangeFaceNbrData ext ?flux))
          [0..<GetNSharedFaces pmesh] est1 = Inr acc"
    by (auto simp: accumulate_def Let_def split: sum.splits)
  have 0: "?I (replicate (GetNE pmesh) 0)" by simp
  have "?I est1"
    using local_face_nonneg [OF c] by (rule face_loop_invariant [where I = ?I, OF _ 0 1]) 
  then show "?I acc"
    using shared_face_nonneg [OF c] by (rule face_loop_invariant [where I = ?I, OF _ _ 2, rotated])
qed

lemma fold_finalize:
  "k \<le> length est \<Longrightarrow>
   length (fold (\<lambda>e v. v[e := sqrt (c e * v ! e)]) [0..<k] est) = length est \<and>
   (\<forall>e<length est. fold (\<lambda>e v. v[e := sqrt (c e * v ! e)]) [0..<k] est ! e =
       (if e < k then sqrt (c e * est ! e) else est ! e))"
proof (induction k)
  case 0
  show ?case by simp
next
  case (Suc k)
  then show ?case by (auto simp: nth_list_update less_Suc_eq)
qed

lemma finalize_length: "length (finalize pmesh ext est) = length est"
proof -
  have "length (fold (\<lambda>e v. v[e := sqrt (c e * v ! e)]) ks est) = length est" for c ks
    by (induction ks arbitrary: est) auto
  then show ?thesis by (simp add: finalize_def)
qed

lemma finalize_nth:
  "length est = GetNE pmesh \<Longrightarrow> e < GetNE pmesh \<Longrightarrow>
   finalize pmesh ext est ! e = sqrt (compute_element_coefficient ext e * est ! e)"
  using fold_finalize [of "GetNE pmesh" est "compute_element_coefficient ext"]
  by (simp add: finalize_def)

subsection \<open>Which local faces are integrated\<close>

lemma local_face_step:
  assumes "face_selected pmesh f \<and>
      \<not> face_excluded attributes (GetFaceElementTransformations pmesh f) \<longrightarrow>
      0 \<le> Elem1No (GetFaceElementTransformations pmesh f) \<and>
      Elem1No (GetFaceElementTransformations pmesh f) < int (length est) \<and>
      Elem2No (GetFaceElementTransformations pmesh f) < int (length est)"
  shows "\<exists>est'. local_face pmesh ext attributes flux f est = Inr est' \<and>
           length est' = length est \<and>
           (\<forall>e<length est. est' ! e = est ! e + local_contribution pmesh ext attributes flux f e)"
proof (cases "face_selected pmesh f \<and>
      \<not> face_excluded attributes (GetFaceElementTransformations pmesh f)")
  case False
  then have "local_face pmesh ext attributes flux f est = Inr est"
    by (auto simp: local_face_def)
  moreover from False have "local_contribution pmesh ext attributes flux f e = 0" for e
    by (auto simp: local_contribution_def)
  ultimately show ?thesis by simp
next
  case True
  let ?FT = "GetFaceElementTransformations pmesh f"
  let ?J = "local_jump_integral pmesh ext flux f"
  from True assms have r: "0 \<le> Elem1No ?FT" "Elem1No ?FT < int (length est)"
    "Elem2No ?FT < int (length est)"
    by simp_all
  from True have e2: "0 \<le> Elem2No ?FT" by (auto simp: face_selected_def Let_def)
  let ?est1 = "est[nat (Elem1No ?FT) := est ! nat (Elem1No ?FT) + ?J]"
  let ?est2 = "?est1[nat (Elem2No ?FT) := ?est1 ! nat (Elem2No ?FT) + ?J]"
  have 1: "add_at est (Elem1No ?FT) ?J = Inr ?est1"
    using r by (simp add: add_at_in_range)
  have 2: "add_at ?est1 (Elem2No ?FT) ?J = Inr ?est2"
    using r e2 by (simp add: add_at_in_range)
  have res: "local_face pmesh ext attributes flux f est = Inr ?est2"
    using True 1 2 by (simp add: local_face_def integrate_local_face_def Let_def)
  have n: "?est2 ! e = est ! e + local_contribution pmesh ext attributes flux f e"
    if "e < length est" for e
  proof -
    have "?est2 ! e = ?est1 ! e + (if int e = Elem2No ?FT then ?J else 0)"
      using r e2 that by (intro nth_add_at) simp_all
    also have "?est1 ! e = est ! e + (if int e = Elem1No ?FT then ?J else 0)"
      using r that by (intro nth_add_at) simp_all
    finally show ?thesis using True by (simp add: local_contribution_def Let_def)
  qed
  show ?thesis using res n by (intro exI [of _ ?est2]) simp
qed

lemma local_loop_sum:
  assumes "\<forall>f\<in>set fs. face_selected pmesh f \<and>
      \<not> face_excluded attributes (GetFaceElementTransformations pmesh f) \<longrightarrow>
      0 \<le> Elem1No (GetFaceElementTransformations pmesh f) \<and>
      Elem1No (GetFaceElementTransformations pmesh f) < int (length est) \<and>
      Elem2No (GetFaceElementTransformations pmesh f) < int (length est)"
  shows "\<exists>est'. face_loop (local_face pmesh ext attributes flux) fs est = Inr est' \<and>
           length est' = length est \<and>
           (\<forall>e<length est. est' ! e =
              est ! e + (\<Sum>f\<leftarrow>fs. local_contribution pmesh ext attributes flux f e))"
  using assms
proof (induction fs arbitrary: est)
  case Nil
  show ?case by simp
next
  case (Cons f fs)
  from Cons.prems have "face_selected pmesh f \<and>
      \<not> face_excluded attributes (GetFaceElementTransformations pmesh f) \<longrightarrow>
      0 \<le> Elem1No (GetFaceElementTransformations pmesh f) \<and>
      Elem1No (GetFaceElementTransformations pmesh f) < int (length est) \<and>
      Elem2No (GetFaceElementTransformations pmesh f) < int (length est)"
    by simp
  from local_face_step [OF this, of ext flux] obtain est1 where
    s: "local_face pmesh ext attributes flux f est = Inr est1"
    and l1: "length est1 = length est"
    and n1: "\<forall>e<length est. est1 ! e = est ! e + local_contribution pmesh ext attributes flux f e"
    by blast
  from Cons.prems l1 have "\<forall>f\<in>set fs. face_selected pmesh f \<and>
      \<not> face_excluded attributes (GetFaceElementTransformations pmesh f) \<longrightarrow>
      0 \<le> Elem1No (GetFaceElementTransformations pmesh f) \<and>
      Elem1No (GetFaceElementTransformations pmesh f) < int (length est1) \<and>
      Elem2No (GetFaceElementTransformations pmesh f) < int (length est1)"
    by simp
  from Cons.IH [OF this] obtain est' where
    r: "face_loop (local_face pmesh ext attributes flux) fs est1 = Inr est'"
    and l2: "length est' = length est1"
    and n2: "\<forall>e<length est1. est' ! e =
              est1 ! e + (\<Sum>f\<leftarrow>fs. local_contribution pmesh ext attributes flux f e)"
    by blast
  have "face_loop (local_face pmesh ext attributes flux) (f # fs) est = Inr est'"
    using s r by simp
  moreover have "length est' = length est" using l1 l2 by simp
  moreover have "\<forall>e<length est. est' ! e =
      est ! e + (\<Sum>f\<leftarrow>f # fs. local_contribution pmesh ext attributes flux f e)"
    using n1 n2 l1 by simp
  ultimately show ?case by blast
qed

text \<open>
  C2, as claimed: every interior face is integrated exactly once. On the mesh
  whose one face is interior and conforming, with element 1 on side 1 and
  element 0 on side 2, the face is not selected and the loop over the local
  faces leaves every error sum at zero, although the contribution of the face
  is 1.
\<close>

theorem reversed_face_not_integrated:
  "FaceIsInterior ex_rev_pmesh 0 \<and>
   Elem1No (GetFaceElementTransformations ex_rev_pmesh 0) = 1 \<and>
   Elem2No (GetFaceElementTransformations ex_rev_pmesh 0) = 0 \<and>
   GetFaceInfos_NCFace ex_rev_pmesh 0 = -1 \<and>
   \<not> face_selected ex_rev_pmesh 0 \<and>
   local_jump_integral ex_rev_pmesh ex_ext (compute_fluxes ex_rev_pmesh ex_ext []) 0 = 1 \<and>
   face_loop (local_face ex_rev_pmesh ex_ext [] (compute_fluxes ex_rev_pmesh ex_ext []))
     [0..<GetNumFaces ex_rev_pmesh] [0, 0, 0] = Inr [0, 0, 0]"
  by (simp add: ex_rev_pmesh_def ex_defs point_defs face_selected_def local_face_def
        local_jump_integral_def local_face_rule_def jump_integral_def compute_fluxes_def
        upt_rec flux_element_def excluded_def)

text \<open>
  C2, amended. The loop over the local faces visits every face once, and a
  face is integrated at most once: the error sums after the loop are the sums
  before it plus, for every face once, the contribution of that face to its
  two elements if the face is selected and passes the attribute filter, and
  nothing otherwise. A conforming face (\<open>NCFace = -1\<close>) is selected if and
  only if it is interior, has a second element and the number of its first
  element is less than that of the second; a non-conforming face
  (\<open>NCFace \<ge> 0\<close>) if and only if it is interior and has a second element,
  which is what the code calls the slave side; a face that is not interior or
  has no second element is never selected. So an interior face that passes
  the filter is integrated exactly once when it is non-conforming or its first
  element has the smaller number, and not at all otherwise. The numbers of the
  elements of the integrated faces are taken to lie in the vector.
\<close>

theorem local_faces_integrated:
  "(GetFaceInfos_NCFace pmesh f = -1 \<longrightarrow>
      (face_selected pmesh f \<longleftrightarrow>
         FaceIsInterior pmesh f \<and> 0 \<le> Elem2No (GetFaceElementTransformations pmesh f) \<and>
         Elem1No (GetFaceElementTransformations pmesh f) < Elem2No (GetFaceElementTransformations pmesh f))) \<and>
   (0 \<le> GetFaceInfos_NCFace pmesh f \<longrightarrow>
      (face_selected pmesh f \<longleftrightarrow>
         FaceIsInterior pmesh f \<and> 0 \<le> Elem2No (GetFaceElementTransformations pmesh f))) \<and>
   (\<not> FaceIsInterior pmesh f \<or> Elem2No (GetFaceElementTransformations pmesh f) < 0 \<longrightarrow>
      \<not> face_selected pmesh f) \<and>
   ((\<forall>g<GetNumFaces pmesh. face_selected pmesh g \<and>
        \<not> face_excluded attributes (GetFaceElementTransformations pmesh g) \<longrightarrow>
        0 \<le> Elem1No (GetFaceElementTransformations pmesh g) \<and>
        Elem1No (GetFaceElementTransformations pmesh g) < int (length est) \<and>
        Elem2No (GetFaceElementTransformations pmesh g) < int (length est)) \<longrightarrow>
    (\<exists>est'. face_loop (local_face pmesh ext attributes flux) [0..<GetNumFaces pmesh] est = Inr est' \<and>
       length est' = length est \<and>
       (\<forall>e<length est. est' ! e = est ! e +
          (\<Sum>g\<leftarrow>[0..<GetNumFaces pmesh]. local_contribution pmesh ext attributes flux g e)))) \<and>
   (FaceIsInterior pmesh f \<and> 0 \<le> Elem2No (GetFaceElementTransformations pmesh f) \<and>
    (GetFaceInfos_NCFace pmesh f = -1 \<and>
       Elem1No (GetFaceElementTransformations pmesh f) < Elem2No (GetFaceElementTransformations pmesh f) \<or>
     0 \<le> GetFaceInfos_NCFace pmesh f) \<and>
    \<not> face_excluded attributes (GetFaceElementTransformations pmesh f) \<longrightarrow>
      local_contribution pmesh ext attributes flux f e =
        (if int e = Elem1No (GetFaceElementTransformations pmesh f)
         then local_jump_integral pmesh ext flux f else 0) +
        (if int e = Elem2No (GetFaceElementTransformations pmesh f)
         then local_jump_integral pmesh ext flux f else 0)) \<and>
   (GetFaceInfos_NCFace pmesh f = -1 \<and>
    Elem2No (GetFaceElementTransformations pmesh f) \<le> Elem1No (GetFaceElementTransformations pmesh f) \<longrightarrow>
      local_contribution pmesh ext attributes flux f e = 0)"
proof -
  have loop: "\<exists>est'. face_loop (local_face pmesh ext attributes flux) [0..<GetNumFaces pmesh] est = Inr est' \<and>
       length est' = length est \<and>
       (\<forall>e<length est. est' ! e = est ! e +
          (\<Sum>g\<leftarrow>[0..<GetNumFaces pmesh]. local_contribution pmesh ext attributes flux g e))"
    if "\<forall>g<GetNumFaces pmesh. face_selected pmesh g \<and>
        \<not> face_excluded attributes (GetFaceElementTransformations pmesh g) \<longrightarrow>
        0 \<le> Elem1No (GetFaceElementTransformations pmesh g) \<and>
        Elem1No (GetFaceElementTransformations pmesh g) < int (length est) \<and>
        Elem2No (GetFaceElementTransformations pmesh g) < int (length est)"
    using that by (intro local_loop_sum) simp
  show ?thesis
    using loop by (auto simp: face_selected_def local_contribution_def Let_def)
qed

theorem local_faces_integrated_witness:
  "GetFaceInfos_NCFace ex_pmesh 0 = -1 \<and> face_selected ex_pmesh 0 \<and>
   0 \<le> GetFaceInfos_NCFace ex_nc_pmesh 1 \<and> face_selected ex_nc_pmesh 1 \<and>
   \<not> FaceIsInterior ex_pmesh 2 \<and> \<not> face_selected ex_pmesh 2 \<and>
   face_loop (local_face ex_pmesh ex_ext [] (compute_fluxes ex_pmesh ex_ext []))
     [0..<GetNumFaces ex_pmesh] [0, 0, 0] = Inr [1, 2, 1] \<and>
   local_contribution ex_rev_pmesh ex_ext [] (compute_fluxes ex_rev_pmesh ex_ext []) 0 0 = 0"
proof -
  let ?flux = "compute_fluxes ex_pmesh ex_ext []"
  have a: "GetFaceInfos_NCFace ex_pmesh 0 = -1"
    "FaceIsInterior ex_pmesh 0 \<and> 0 \<le> Elem2No (GetFaceElementTransformations ex_pmesh 0) \<and>
     Elem1No (GetFaceElementTransformations ex_pmesh 0) <
       Elem2No (GetFaceElementTransformations ex_pmesh 0)"
    by (simp_all add: ex_defs)
  have b: "0 \<le> GetFaceInfos_NCFace ex_nc_pmesh 1"
    "FaceIsInterior ex_nc_pmesh 1 \<and> 0 \<le> Elem2No (GetFaceElementTransformations ex_nc_pmesh 1)"
    by (simp_all add: ex_nc_pmesh_def ex_defs)
  have c: "\<not> FaceIsInterior ex_pmesh 2"
    by (simp add: ex_defs)
  have d: "GetFaceInfos_NCFace ex_rev_pmesh 0 = -1 \<and>
    Elem2No (GetFaceElementTransformations ex_rev_pmesh 0) \<le>
      Elem1No (GetFaceElementTransformations ex_rev_pmesh 0)"
    by (simp add: ex_rev_pmesh_def ex_defs)
  have r: "\<forall>g<GetNumFaces ex_pmesh. face_selected ex_pmesh g \<and>
        \<not> face_excluded [] (GetFaceElementTransformations ex_pmesh g) \<longrightarrow>
        0 \<le> Elem1No (GetFaceElementTransformations ex_pmesh g) \<and>
        Elem1No (GetFaceElementTransformations ex_pmesh g) < int (length [0, 0, 0::real]) \<and>
        Elem2No (GetFaceElementTransformations ex_pmesh g) < int (length [0, 0, 0::real])"
    by (simp add: ex_defs)
  note A = local_faces_integrated [where pmesh = ex_pmesh and f = 0 and attributes = "[]"
      and ext = ex_ext and flux = ?flux and est = "[0, 0, 0]"]
  note B = local_faces_integrated [where pmesh = ex_nc_pmesh and f = 1]
  note C = local_faces_integrated [where pmesh = ex_pmesh and f = 2]
  note D = local_faces_integrated [where pmesh = ex_rev_pmesh and f = 0 and e = 0
      and attributes = "[]" and ext = ex_ext and flux = "compute_fluxes ex_rev_pmesh ex_ext []"]
  from A a have 1: "face_selected ex_pmesh 0" by blast
  from B b have 2: "face_selected ex_nc_pmesh 1" by blast
  from C c have 3: "\<not> face_selected ex_pmesh 2" by blast
  from D d have 4:
    "local_contribution ex_rev_pmesh ex_ext [] (compute_fluxes ex_rev_pmesh ex_ext []) 0 0 = 0"
    by blast
  from A r obtain est' where
    l: "face_loop (local_face ex_pmesh ex_ext [] ?flux) [0..<GetNumFaces ex_pmesh] [0, 0, 0] = Inr est'"
    and len: "length est' = length [0, 0, 0::real]"
    and n: "\<forall>e<length [0, 0, 0::real]. est' ! e = [0, 0, 0] ! e +
          (\<Sum>g\<leftarrow>[0..<GetNumFaces ex_pmesh]. local_contribution ex_pmesh ex_ext [] ?flux g e)"
    by blast
  have s: "(\<Sum>g\<leftarrow>[0..<GetNumFaces ex_pmesh]. local_contribution ex_pmesh ex_ext [] ?flux g e) =
      (if e = 0 then 1 else if e = 1 then 2 else if e = 2 then 1 else 0)" for e
    by (simp add: local_contribution_def face_selected_def face_excluded_def
          local_jump_integral_def local_face_rule_def jump_integral_def ex_defs point_defs
          compute_fluxes_def upt_rec flux_element_def excluded_def)
  from n have "est' ! 0 = 1" "est' ! 1 = 2" "est' ! 2 = 1"
    by (simp_all add: s)
  with len have "est' = [1, 2, 1]"
    by (auto simp: list_eq_iff_nth_eq less_Suc_eq numeral_3_eq_3 numeral_2_eq_2)
  with l have 5: "face_loop (local_face ex_pmesh ex_ext [] ?flux) [0..<GetNumFaces ex_pmesh]
      [0, 0, 0] = Inr [1, 2, 1]"
    by simp
  show ?thesis using a(1) b(1) c 1 2 3 4 5 by blast
qed

subsection \<open>The contribution of a face to the error sums\<close>

text \<open>On the mesh of three elements every integrated face contributes 1.\<close>

lemma ex_local_jump_integral:
  "local_jump_integral ex_pmesh ex_ext (compute_fluxes ex_pmesh ex_ext []) 0 = 1"
  by (simp add: local_jump_integral_def local_face_rule_def jump_integral_def
        ex_defs point_defs compute_fluxes_def upt_rec flux_element_def excluded_def)

lemma ex_shared_jump_integral:
  "shared_jump_integral ex_pmesh ex_ext
     (ExchangeFaceNbrData ex_ext (compute_fluxes ex_pmesh ex_ext [])) 0 = 1"
  by (simp add: shared_jump_integral_def shared_face_rule_def jump_integral_def
        ex_defs point_defs compute_fluxes_def upt_rec flux_element_def excluded_def)

text \<open>
  C3. A local face that is selected and passes the attribute filter adds its
  scalar contribution, the face coefficient times the sum of the squared
  accumulators of its points, to the error sums of both adjacent elements and
  to no other; a shared face that passes the filter adds it to the sum of its
  first element, which is the local one, and to no other entry. The numbers
  of the elements are taken to lie in the vector.
\<close>

theorem face_contribution_credit:
  "(face_selected pmesh f \<and> \<not> face_excluded attributes (GetFaceElementTransformations pmesh f) \<and>
    0 \<le> Elem1No (GetFaceElementTransformations pmesh f) \<and>
    Elem1No (GetFaceElementTransformations pmesh f) < int (length est) \<and>
    Elem2No (GetFaceElementTransformations pmesh f) < int (length est) \<longrightarrow>
    (\<exists>est'. local_face pmesh ext attributes flux f est = Inr est' \<and> length est' = length est \<and>
       (\<forall>e<length est. est' ! e = est ! e +
          (if int e = Elem1No (GetFaceElementTransformations pmesh f)
           then local_jump_integral pmesh ext flux f else 0) +
          (if int e = Elem2No (GetFaceElementTransformations pmesh f)
           then local_jump_integral pmesh ext flux f else 0)))) \<and>
   (\<not> face_excluded attributes (GetSharedFaceTransformations pmesh sf) \<and>
    0 \<le> Elem1No (GetSharedFaceTransformations pmesh sf) \<and>
    Elem1No (GetSharedFaceTransformations pmesh sf) < int (length est) \<longrightarrow>
    (\<exists>est'. shared_face pmesh ext attributes flux sf est = Inr est' \<and> length est' = length est \<and>
       (\<forall>e<length est. est' ! e = est ! e +
          (if int e = Elem1No (GetSharedFaceTransformations pmesh sf)
           then shared_jump_integral pmesh ext flux sf else 0)))) \<and>
   local_jump_integral pmesh ext flux f =
     compute_face_coefficient ext f False *
     (\<Sum>j\<leftarrow>face_jumps pmesh ext flux (GetFaceElementTransformations pmesh f) True
           (local_face_rule pmesh ext f). j * j) \<and>
   shared_jump_integral pmesh ext flux sf =
     compute_face_coefficient ext sf True *
     (\<Sum>j\<leftarrow>face_jumps pmesh ext flux (GetSharedFaceTransformations pmesh sf) False
           (shared_face_rule pmesh ext sf). j * j)"
proof (intro conjI impI)
  let ?FT = "GetFaceElementTransformations pmesh f"
  let ?J = "local_jump_integral pmesh ext flux f"
  assume h: "face_selected pmesh f \<and> \<not> face_excluded attributes ?FT \<and>
    0 \<le> Elem1No ?FT \<and> Elem1No ?FT < int (length est) \<and> Elem2No ?FT < int (length est)"
  then have e2: "0 \<le> Elem2No ?FT" by (auto simp: face_selected_def Let_def)
  let ?est1 = "est[nat (Elem1No ?FT) := est ! nat (Elem1No ?FT) + ?J]"
  let ?est2 = "?est1[nat (Elem2No ?FT) := ?est1 ! nat (Elem2No ?FT) + ?J]"
  have 1: "add_at est (Elem1No ?FT) ?J = Inr ?est1"
    using h by (simp add: add_at_in_range)
  have 2: "add_at ?est1 (Elem2No ?FT) ?J = Inr ?est2"
    using h e2 by (simp add: add_at_in_range)
  have r: "local_face pmesh ext attributes flux f est = Inr ?est2"
    using h 1 2 by (simp add: local_face_def integrate_local_face_def Let_def)
  have n: "?est2 ! e = est ! e + (if int e = Elem1No ?FT then ?J else 0) +
          (if int e = Elem2No ?FT then ?J else 0)" if "e < length est" for e
  proof -
    have "?est2 ! e = ?est1 ! e + (if int e = Elem2No ?FT then ?J else 0)"
      using h e2 that by (intro nth_add_at) simp_all
    also have "?est1 ! e = est ! e + (if int e = Elem1No ?FT then ?J else 0)"
      using h that by (intro nth_add_at) simp_all
    finally show ?thesis .
  qed
  show "\<exists>est'. local_face pmesh ext attributes flux f est = Inr est' \<and> length est' = length est \<and>
       (\<forall>e<length est. est' ! e = est ! e + (if int e = Elem1No ?FT then ?J else 0) +
          (if int e = Elem2No ?FT then ?J else 0))"
    using r n by (intro exI [of _ ?est2]) simp
next
  let ?FT = "GetSharedFaceTransformations pmesh sf"
  let ?J = "shared_jump_integral pmesh ext flux sf"
  assume h: "\<not> face_excluded attributes ?FT \<and> 0 \<le> Elem1No ?FT \<and> Elem1No ?FT < int (length est)"
  let ?est1 = "est[nat (Elem1No ?FT) := est ! nat (Elem1No ?FT) + ?J]"
  have r: "shared_face pmesh ext attributes flux sf est = Inr ?est1"
    using h by (simp add: shared_face_def add_at_in_range Let_def)
  have n: "?est1 ! e = est ! e + (if int e = Elem1No ?FT then ?J else 0)" if "e < length est" for e
    using h that by (intro nth_add_at) simp_all
  show "\<exists>est'. shared_face pmesh ext attributes flux sf est = Inr est' \<and> length est' = length est \<and>
       (\<forall>e<length est. est' ! e = est ! e + (if int e = Elem1No ?FT then ?J else 0))"
    using r n by (intro exI [of _ ?est1]) simp
next
  show "local_jump_integral pmesh ext flux f =
     compute_face_coefficient ext f False *
     (\<Sum>j\<leftarrow>face_jumps pmesh ext flux (GetFaceElementTransformations pmesh f) True
           (local_face_rule pmesh ext f). j * j)"
    by (simp add: local_jump_integral_def jump_integral_def)
next
  show "shared_jump_integral pmesh ext flux sf =
     compute_face_coefficient ext sf True *
     (\<Sum>j\<leftarrow>face_jumps pmesh ext flux (GetSharedFaceTransformations pmesh sf) False
           (shared_face_rule pmesh ext sf). j * j)"
    by (simp add: shared_jump_integral_def jump_integral_def)
qed

theorem face_contribution_credit_witness:
  "face_selected ex_pmesh 0 \<and> \<not> face_excluded [] (GetFaceElementTransformations ex_pmesh 0) \<and>
   \<not> face_excluded [] (GetSharedFaceTransformations ex_pmesh 0) \<and>
   local_face ex_pmesh ex_ext [] (compute_fluxes ex_pmesh ex_ext []) 0 [0, 0, 0] = Inr [1, 1, 0] \<and>
   shared_face ex_pmesh ex_ext [] (ExchangeFaceNbrData ex_ext (compute_fluxes ex_pmesh ex_ext []))
     0 [1, 2, 1] = Inr [2, 2, 1]"
proof -
  let ?flux = "compute_fluxes ex_pmesh ex_ext []"
  let ?flux' = "ExchangeFaceNbrData ex_ext ?flux"
  have h: "face_selected ex_pmesh 0" "\<not> face_excluded [] (GetFaceElementTransformations ex_pmesh 0)"
    "\<not> face_excluded [] (GetSharedFaceTransformations ex_pmesh 0)"
    and e: "Elem1No (GetFaceElementTransformations ex_pmesh 0) = 0"
    "Elem2No (GetFaceElementTransformations ex_pmesh 0) = 1"
    "Elem1No (GetSharedFaceTransformations ex_pmesh 0) = 0"
    by (simp_all add: ex_defs face_selected_def face_excluded_def)
  have p: "face_selected ex_pmesh 0 \<and> \<not> face_excluded [] (GetFaceElementTransformations ex_pmesh 0) \<and>
    0 \<le> Elem1No (GetFaceElementTransformations ex_pmesh 0) \<and>
    Elem1No (GetFaceElementTransformations ex_pmesh 0) < int (length [0, 0, 0::real]) \<and>
    Elem2No (GetFaceElementTransformations ex_pmesh 0) < int (length [0, 0, 0::real])"
    using h e by simp
  have q: "\<not> face_excluded [] (GetSharedFaceTransformations ex_pmesh 0) \<and>
    0 \<le> Elem1No (GetSharedFaceTransformations ex_pmesh 0) \<and>
    Elem1No (GetSharedFaceTransformations ex_pmesh 0) < int (length [1, 2, 1::real])"
    using h e by simp
  note L = face_contribution_credit [where pmesh = ex_pmesh and f = 0 and attributes = "[]"
      and est = "[0, 0, 0]" and ext = ex_ext and flux = ?flux, THEN conjunct1, THEN mp, OF p]
  note S = face_contribution_credit [where pmesh = ex_pmesh and sf = 0 and attributes = "[]"
      and est = "[1, 2, 1]" and ext = ex_ext and flux = ?flux',
      THEN conjunct2, THEN conjunct1, THEN mp, OF q]
  from L obtain est' where 1: "local_face ex_pmesh ex_ext [] ?flux 0 [0, 0, 0] = Inr est'"
    and l1: "length est' = length [0, 0, 0::real]"
    and n1: "\<forall>e<length [0, 0, 0::real]. est' ! e = [0, 0, 0] ! e +
          (if int e = Elem1No (GetFaceElementTransformations ex_pmesh 0)
           then local_jump_integral ex_pmesh ex_ext ?flux 0 else 0) +
          (if int e = Elem2No (GetFaceElementTransformations ex_pmesh 0)
           then local_jump_integral ex_pmesh ex_ext ?flux 0 else 0)"
    by blast
  from n1 have "est' ! 0 = 1" "est' ! 1 = 1" "est' ! 2 = 0"
    by (simp_all add: e ex_local_jump_integral)
  with l1 have a: "est' = [1, 1, 0]"
    by (auto simp: list_eq_iff_nth_eq less_Suc_eq numeral_3_eq_3 numeral_2_eq_2)
  from S obtain est'' where 2: "shared_face ex_pmesh ex_ext [] ?flux' 0 [1, 2, 1] = Inr est''"
    and l2: "length est'' = length [1, 2, 1::real]"
    and n2: "\<forall>e<length [1, 2, 1::real]. est'' ! e = [1, 2, 1] ! e +
          (if int e = Elem1No (GetSharedFaceTransformations ex_pmesh 0)
           then shared_jump_integral ex_pmesh ex_ext ?flux' 0 else 0)"
    by blast
  from n2 have "est'' ! 0 = 2" "est'' ! 1 = 2" "est'' ! 2 = 1"
    by (simp_all add: e ex_shared_jump_integral)
  with l2 have b: "est'' = [2, 2, 1]"
    by (auto simp: list_eq_iff_nth_eq less_Suc_eq numeral_3_eq_3 numeral_2_eq_2)
  show ?thesis using h 1 2 a b by simp
qed

subsection \<open>The attribute filter\<close>

lemma AddElementVector_other: "j \<notin> set js \<Longrightarrow> AddElementVector js as d j = d j"
  by (induction js as d rule: AddElementVector.induct) auto

lemma flux_element_other:
  assumes "excluded attributes (GetAttribute ext e') \<or> j \<notin> set (flux_GetElementVDofs ext e')"
  shows "gf_data (flux_element ext attributes e' flux) j = gf_data flux j"
  using assms by (auto simp: flux_element_def Let_def AddElementVector_other)

lemma fold_flux_element_other:
  assumes "\<forall>e'\<in>set es. excluded attributes (GetAttribute ext e') \<or> j \<notin> set (flux_GetElementVDofs ext e')"
  shows "gf_data (fold (flux_element ext attributes) es flux) j = gf_data flux j"
  using assms
proof (induction es arbitrary: flux)
  case Nil
  show ?case by simp
next
  case (Cons e' es)
  then show ?case by (simp add: flux_element_other)
qed

text \<open>
  C7. With a filter that is not empty, an element whose attribute is not in
  the filter is skipped by the flux recovery, and its flux entries are zero
  afterwards, provided no element that passes the filter shares a degree of
  freedom with it (the flux space is discontinuous); a local or shared face
  with an adjacent element whose attribute is not in the filter leaves every
  error sum as it is.
\<close>

theorem attribute_filter_excludes:
  "attributes \<noteq> [] \<longrightarrow>
   (GetAttribute ext e \<notin> set attributes \<longrightarrow>
      flux_element ext attributes e flux = flux \<and>
      ((\<forall>e'<GetNE pmesh. GetAttribute ext e' \<in> set attributes \<longrightarrow>
          set (flux_GetElementVDofs ext e') \<inter> set (flux_GetElementVDofs ext e) = {}) \<longrightarrow>
       (\<forall>j\<in>set (flux_GetElementVDofs ext e).
          gf_data (compute_fluxes pmesh ext attributes) j = 0))) \<and>
   (Elem1_Attribute (GetFaceElementTransformations pmesh f) \<notin> set attributes \<or>
    Elem2_Attribute (GetFaceElementTransformations pmesh f) \<notin> set attributes \<longrightarrow>
      local_face pmesh ext attributes flux f est = Inr est) \<and>
   (Elem1_Attribute (GetSharedFaceTransformations pmesh sf) \<notin> set attributes \<or>
    Elem2_Attribute (GetSharedFaceTransformations pmesh sf) \<notin> set attributes \<longrightarrow>
      shared_face pmesh ext attributes flux sf est = Inr est)"
proof (intro impI conjI)
  assume ne: "attributes \<noteq> []" and ex: "GetAttribute ext e \<notin> set attributes"
  show "flux_element ext attributes e flux = flux"
    using ne ex by (simp add: flux_element_def excluded_iff)
next
  assume ne: "attributes \<noteq> []" and ex: "GetAttribute ext e \<notin> set attributes"
    and dis: "\<forall>e'<GetNE pmesh. GetAttribute ext e' \<in> set attributes \<longrightarrow>
          set (flux_GetElementVDofs ext e') \<inter> set (flux_GetElementVDofs ext e) = {}"
  show "\<forall>j\<in>set (flux_GetElementVDofs ext e). gf_data (compute_fluxes pmesh ext attributes) j = 0"
  proof
    fix j assume j: "j \<in> set (flux_GetElementVDofs ext e)"
    have "\<forall>e'\<in>set [0..<GetNE pmesh].
            excluded attributes (GetAttribute ext e') \<or> j \<notin> set (flux_GetElementVDofs ext e')"
      using dis j ne by (auto simp: excluded_iff)
    then show "gf_data (compute_fluxes pmesh ext attributes) j = 0"
      unfolding compute_fluxes_def by (simp add: fold_flux_element_other)
  qed
next
  assume "attributes \<noteq> []"
    and "Elem1_Attribute (GetFaceElementTransformations pmesh f) \<notin> set attributes \<or>
         Elem2_Attribute (GetFaceElementTransformations pmesh f) \<notin> set attributes"
  then show "local_face pmesh ext attributes flux f est = Inr est"
    by (simp add: local_face_def face_excluded_iff)
next
  assume "attributes \<noteq> []"
    and "Elem1_Attribute (GetSharedFaceTransformations pmesh sf) \<notin> set attributes \<or>
         Elem2_Attribute (GetSharedFaceTransformations pmesh sf) \<notin> set attributes"
  then show "shared_face pmesh ext attributes flux sf est = Inr est"
    by (simp add: shared_face_def face_excluded_iff)
qed

theorem attribute_filter_excludes_witness:
  "[1] \<noteq> [] \<and> GetAttribute ex_ext 2 \<notin> set [1] \<and>
   set (flux_GetElementVDofs ex_ext 0) \<inter> set (flux_GetElementVDofs ex_ext 2) = {} \<and>
   set (flux_GetElementVDofs ex_ext 1) \<inter> set (flux_GetElementVDofs ex_ext 2) = {} \<and>
   Elem2_Attribute (GetFaceElementTransformations ex_pmesh 1) \<notin> set [1] \<and>
   Elem2_Attribute (GetSharedFaceTransformations ex_pmesh 0) \<notin> set [2] \<and>
   gf_data (compute_fluxes ex_pmesh ex_ext [1]) 2 = 0 \<and>
   gf_data (compute_fluxes ex_pmesh ex_ext [1]) 1 = 1 \<and>
   local_face ex_pmesh ex_ext [1] (compute_fluxes ex_pmesh ex_ext [1]) 1 [0, 0, 0] = Inr [0, 0, 0] \<and>
   local_face ex_pmesh ex_ext [] (compute_fluxes ex_pmesh ex_ext [1]) 1 [0, 0, 0] = Inr [0, 1 / 4, 1 / 4] \<and>
   shared_face ex_pmesh ex_ext [2] (compute_fluxes ex_pmesh ex_ext [1]) 0 [0, 0, 0] = Inr [0, 0, 0]"
proof -
  have h: "[1::int] \<noteq> []" "GetAttribute ex_ext 2 \<notin> set [1]"
    "\<forall>e'<GetNE ex_pmesh. GetAttribute ex_ext e' \<in> set [1] \<longrightarrow>
      set (flux_GetElementVDofs ex_ext e') \<inter> set (flux_GetElementVDofs ex_ext 2) = {}"
    "Elem2_Attribute (GetFaceElementTransformations ex_pmesh 1) \<notin> set [1]"
    "Elem2_Attribute (GetSharedFaceTransformations ex_pmesh 0) \<notin> set [2]"
    "set (flux_GetElementVDofs ex_ext 0) \<inter> set (flux_GetElementVDofs ex_ext 2) = {}"
    "set (flux_GetElementVDofs ex_ext 1) \<inter> set (flux_GetElementVDofs ex_ext 2) = {}"
    by (simp_all add: ex_defs)
  have dofs: "2 \<in> set (flux_GetElementVDofs ex_ext 2)" by (simp add: ex_defs)
  note T = attribute_filter_excludes [where attributes = "[1]" and ext = ex_ext and e = 2
      and pmesh = ex_pmesh and f = 1 and flux = "compute_fluxes ex_pmesh ex_ext [1]"
      and est = "[0, 0, 0]"]
  note U = attribute_filter_excludes [where attributes = "[2]" and ext = ex_ext
      and pmesh = ex_pmesh and sf = 0 and flux = "compute_fluxes ex_pmesh ex_ext [1]"
      and est = "[0, 0, 0]"]
  from T h dofs have 1: "gf_data (compute_fluxes ex_pmesh ex_ext [1]) 2 = 0"
    "local_face ex_pmesh ex_ext [1] (compute_fluxes ex_pmesh ex_ext [1]) 1 [0, 0, 0] = Inr [0, 0, 0]"
    by blast+
  from U h have 2:
    "shared_face ex_pmesh ex_ext [2] (compute_fluxes ex_pmesh ex_ext [1]) 0 [0, 0, 0] = Inr [0, 0, 0]"
    by blast
  have 3: "gf_data (compute_fluxes ex_pmesh ex_ext [1]) 1 = 1"
    by (simp add: ex_defs compute_fluxes_def upt_rec flux_element_def excluded_def)
  have 4: "local_face ex_pmesh ex_ext [] (compute_fluxes ex_pmesh ex_ext [1]) 1 [0, 0, 0] = Inr [0, 1 / 4, 1 / 4]"
    by (simp add: ex_defs point_defs compute_fluxes_def upt_rec flux_element_def excluded_def
        local_face_def face_selected_def face_excluded_def integrate_local_face_def
        local_jump_integral_def local_face_rule_def jump_integral_def add_at_def Let_def)
  show ?thesis using h 1 2 3 4 by blast
qed


subsection \<open>The element errors and the global error\<close>

lemma ex_accumulate: "accumulate ex_pmesh ex_ext [] = Inr [2, 2, 1]"
  by (simp add: accumulate_def ex_defs point_defs compute_fluxes_def upt_rec flux_element_def
        excluded_def local_face_def face_selected_def face_excluded_def integrate_local_face_def
        local_jump_integral_def local_face_rule_def jump_integral_def add_at_def Let_def
        shared_face_def shared_jump_integral_def shared_face_rule_def eval_nat_numeral)

lemma ex_finalize: "finalize ex_pmesh ex_ext [2, 2, 1] = [2, 2, 2]"
  by (simp add: finalize_def ex_pmesh_def ex_ext_def upt_rec)

lemma ex_Kelly:
  "Kelly_ComputeEstimates ex_pmesh ex_ext [] [10] ex_this =
     Inr (ex_this\<lparr>flux_space := \<lparr>fes_sequence = 7\<rparr>, error_estimates := [2, 2, 2],
                  current_sequence := 7, total_error := 16\<rparr>)"
proof -
  have "assert_enabled ex_ext \<and> GetVDim ex_ext = 1 \<and> GetSequence ex_pmesh = 7 \<and>
        Update ex_ext (flux_space ex_this) = \<lparr>fes_sequence = 7\<rparr>"
    by (simp add: ex_ext_def ex_pmesh_def ex_this_def)
  then show ?thesis
    by (simp add: Kelly_ComputeEstimates_def ex_accumulate ex_finalize MPI_Allreduce_SUM_def
          ex_this_def)
qed

text \<open>
  C4. After a call that succeeds, with face and element coefficients that are
  not negative: the estimate of every local element is the square root of the
  element coefficient times the error sum that the two face loops accumulated
  for it, and it is not negative; the root is taken element by element before
  the reduction, and the global error is the sum of the estimates of this
  process plus what the other processes contribute to the additive reduction.
\<close>

theorem kelly_element_errors:
  assumes "\<forall>f shared. 0 \<le> compute_face_coefficient ext f shared"
    and "\<forall>e. 0 \<le> compute_element_coefficient ext e"
    and "Kelly_ComputeEstimates pmesh ext attributes others this = Inr this'"
  shows "\<exists>acc. accumulate pmesh ext attributes = Inr acc \<and> length acc = GetNE pmesh \<and>
           length (error_estimates this') = GetNE pmesh \<and>
           (\<forall>e<GetNE pmesh. 0 \<le> acc ! e \<and>
              error_estimates this' ! e = sqrt (compute_element_coefficient ext e * acc ! e) \<and>
              0 \<le> error_estimates this' ! e) \<and>
           total_error this' = sum_list (error_estimates this') + sum_list others"
proof -
  from assms(3) obtain acc where acc: "accumulate pmesh ext attributes = Inr acc"
    and est: "error_estimates this' = finalize pmesh ext acc"
    and tot: "total_error this' = MPI_Allreduce_SUM (sum_list (finalize pmesh ext acc)) others"
    by (auto simp: Kelly_ComputeEstimates_def Let_def split: if_splits sum.splits)
  have len: "length acc = GetNE pmesh" using acc by (rule accumulate_length)
  have nn: "\<forall>x\<in>set acc. 0 \<le> x" using assms(1) acc by (rule accumulate_nonneg)
  have each: "0 \<le> acc ! e \<and>
      error_estimates this' ! e = sqrt (compute_element_coefficient ext e * acc ! e) \<and>
      0 \<le> error_estimates this' ! e" if "e < GetNE pmesh" for e
  proof -
    have a: "0 \<le> acc ! e" using nn len that by simp
    have b: "error_estimates this' ! e = sqrt (compute_element_coefficient ext e * acc ! e)"
      using est len that by (simp add: finalize_nth)
    have "0 \<le> compute_element_coefficient ext e * acc ! e"
      using assms(2) a by simp
    then show ?thesis using a b by simp
  qed
  have lenE: "length (error_estimates this') = GetNE pmesh"
    using est len by (simp add: finalize_length)
  have tot': "total_error this' = sum_list (error_estimates this') + sum_list others"
    using est tot by (simp add: MPI_Allreduce_SUM_def)
  show ?thesis
    using acc len lenE each tot' by blast
qed

theorem kelly_element_errors_witness:
  "(\<forall>f shared. 0 \<le> compute_face_coefficient ex_ext f shared) \<and>
   (\<forall>e. 0 \<le> compute_element_coefficient ex_ext e) \<and>
   Kelly_ComputeEstimates ex_pmesh ex_ext [] [10] ex_this =
     Inr (ex_this\<lparr>flux_space := \<lparr>fes_sequence = 7\<rparr>, error_estimates := [2, 2, 2],
                  current_sequence := 7, total_error := 16\<rparr>) \<and>
   accumulate ex_pmesh ex_ext [] = Inr [2, 2, 1] \<and>
   [2, 2, 2] ! 2 = sqrt (compute_element_coefficient ex_ext 2 * [2, 2, 1] ! 2) \<and>
   (16::real) = sum_list [2, 2, 2] + sum_list [10]"
proof -
  have c: "\<forall>f shared. 0 \<le> compute_face_coefficient ex_ext f shared"
    "\<forall>e. 0 \<le> compute_element_coefficient ex_ext e"
    by (simp_all add: ex_ext_def)
  from kelly_element_errors [OF c ex_Kelly] obtain acc where
    a: "accumulate ex_pmesh ex_ext [] = Inr acc"
    and e: "\<forall>e<GetNE ex_pmesh. 0 \<le> acc ! e \<and>
        error_estimates (ex_this\<lparr>flux_space := \<lparr>fes_sequence = 7\<rparr>, error_estimates := [2, 2, 2],
                  current_sequence := 7, total_error := 16\<rparr>) ! e =
          sqrt (compute_element_coefficient ex_ext e * acc ! e) \<and>
        0 \<le> error_estimates (ex_this\<lparr>flux_space := \<lparr>fes_sequence = 7\<rparr>, error_estimates := [2, 2, 2],
                  current_sequence := 7, total_error := 16\<rparr>) ! e"
    and t: "total_error (ex_this\<lparr>flux_space := \<lparr>fes_sequence = 7\<rparr>, error_estimates := [2, 2, 2],
                  current_sequence := 7, total_error := 16\<rparr>) =
        sum_list (error_estimates (ex_this\<lparr>flux_space := \<lparr>fes_sequence = 7\<rparr>, error_estimates := [2, 2, 2],
                  current_sequence := 7, total_error := 16\<rparr>)) + sum_list [10]"
    by blast
  from a have acc: "acc = [2, 2, 1]" by (simp add: ex_accumulate)
  have "2 < GetNE ex_pmesh" by (simp add: ex_pmesh_def)
  with e have "[2, 2, 2] ! 2 = sqrt (compute_element_coefficient ex_ext 2 * acc ! 2)"
    by (auto simp del: nth_Cons_numeral)
  moreover from t have "(16::real) = sum_list [2, 2, 2] + sum_list [10]" by simp
  ultimately show ?thesis using c ex_Kelly a acc by simp
qed


subsection \<open>Sequence number and size after a call\<close>

lemma SetSize_length: "length (SetSize fill n v) = n"
  by (simp add: SetSize_def)

lemma ComputeElementLpErrors_length: "length (ComputeElementLpErrors g est) = length est"
  by (simp add: ComputeElementLpErrors_def)

lemma Kelly_success:
  assumes "Kelly_ComputeEstimates pmesh ext attributes others this = Inr this'"
  shows "current_sequence this' = GetSequence pmesh \<and>
         length (error_estimates this') = GetNE pmesh"
proof -
  from assms obtain acc where acc: "accumulate pmesh ext attributes = Inr acc"
    and est: "error_estimates this' = finalize pmesh ext acc"
    and sq: "current_sequence this' = GetSequence pmesh"
    by (auto simp: Kelly_ComputeEstimates_def Let_def split: if_splits sum.splits)
  show ?thesis using sq est accumulate_length [OF acc] by (simp add: finalize_length)
qed

lemma Lp_success:
  assumes "Lp_ComputeEstimates mesh rcv cfg this = Inr this'"
  shows "current_sequence this' = GetSequence mesh \<and>
         length (error_estimates this') = GetNE mesh"
  using assms
  by (auto simp: Lp_ComputeEstimates_def Let_def SetSize_length ComputeElementLpErrors_length
           split: option.splits)

text \<open>
  C5. After a call of \<open>ComputeEstimates\<close> that succeeds, for each of the four
  estimators, the cached sequence number is the sequence number of the mesh
  and the vector of estimates has one entry for every local element. The ZZ
  and the L2ZZ estimator cannot fail here; their vector is sized by the
  recovery routines, taken from the specification.
\<close>

theorem estimates_current_after_success:
  "(Kelly_ComputeEstimates mesh ext attributes others this = Inr this' \<longrightarrow>
      current_sequence this' = GetSequence mesh \<and>
      length (error_estimates this') = GetNE mesh) \<and>
   current_sequence (ZZ_ComputeEstimates mesh ext rcv cfg this) = GetSequence mesh \<and>
   length (error_estimates (ZZ_ComputeEstimates mesh ext rcv cfg this)) = GetNE mesh \<and>
   current_sequence (L2ZZ_ComputeEstimates mesh ext rcv cfg this) = GetSequence mesh \<and>
   length (error_estimates (L2ZZ_ComputeEstimates mesh ext rcv cfg this)) = GetNE mesh \<and>
   (Lp_ComputeEstimates mesh rcv cfg this = Inr this'' \<longrightarrow>
      current_sequence this'' = GetSequence mesh \<and>
      length (error_estimates this'') = GetNE mesh)"
  using Kelly_success [of mesh ext attributes others this this']
    Lp_success [of mesh rcv cfg this this'']
  by (simp add: ZZ_ComputeEstimates_def ZZErrorEstimator_def L2ZZ_ComputeEstimates_def
        L2ZZErrorEstimator_def Let_def)

lemma ex_Lp:
  "Lp_ComputeEstimates ex_pmesh ex_rcv ex_cfg ex_this =
     Inr (ex_this\<lparr>error_estimates := [1, 1, 1], current_sequence := 7\<rparr>)"
  by (simp add: Lp_ComputeEstimates_def ex_cfg_def ex_rcv_def ex_pmesh_def ex_this_def
        SetSize_def ComputeElementLpErrors_def upt_rec eval_nat_numeral)

theorem estimates_current_after_success_witness:
  "Kelly_ComputeEstimates ex_pmesh ex_ext [] [10] ex_this =
     Inr (ex_this\<lparr>flux_space := \<lparr>fes_sequence = 7\<rparr>, error_estimates := [2, 2, 2],
                  current_sequence := 7, total_error := 16\<rparr>) \<and>
   Lp_ComputeEstimates ex_pmesh ex_rcv ex_cfg ex_this =
     Inr (ex_this\<lparr>error_estimates := [1, 1, 1], current_sequence := 7\<rparr>) \<and>
   current_sequence ex_this \<noteq> GetSequence ex_pmesh \<and>
   length (error_estimates ex_this) \<noteq> GetNE ex_pmesh \<and>
   current_sequence (ex_this\<lparr>error_estimates := [1, 1, 1], current_sequence := 7\<rparr>) =
     GetSequence ex_pmesh \<and>
   length (error_estimates (ex_this\<lparr>error_estimates := [1, 1, 1], current_sequence := 7\<rparr>)) =
     GetNE ex_pmesh \<and>
   current_sequence (ZZ_ComputeEstimates ex_pmesh ex_ext ex_rcv ex_cfg ex_this) = 7 \<and>
   length (error_estimates (L2ZZ_ComputeEstimates ex_pmesh ex_ext ex_rcv ex_cfg ex_this)) = 3"
proof -
  note T = estimates_current_after_success [where mesh = ex_pmesh and ext = ex_ext
      and rcv = ex_rcv and cfg = ex_cfg and this = ex_this and attributes = "[]"
      and others = "[10]"
      and this' = "ex_this\<lparr>flux_space := \<lparr>fes_sequence = 7\<rparr>, error_estimates := [2, 2, 2],
                  current_sequence := 7, total_error := 16\<rparr>"
      and this'' = "ex_this\<lparr>error_estimates := [1, 1, 1], current_sequence := 7\<rparr>"]
  have s: "GetSequence ex_pmesh = 7" "GetNE ex_pmesh = 3"
    "current_sequence ex_this \<noteq> GetSequence ex_pmesh"
    "length (error_estimates ex_this) \<noteq> GetNE ex_pmesh"
    by (simp_all add: ex_pmesh_def ex_this_def)
  from T ex_Kelly ex_Lp s show ?thesis by simp
qed

subsection \<open>Failed preconditions\<close>

text \<open>
  C8, as claimed: the Kelly estimator with a solution that is not scalar
  fails before any estimator or flux space state is changed. On the mesh of
  three elements, with a solution of two components and a flux space that is
  behind the mesh, the estimator at the failure differs from the one at the
  call: \<open>flux_space->Update(false)\<close> has run.
\<close>

theorem kelly_fails_after_update:
  "Kelly_ComputeEstimates ex_pmesh ex_vector_ext [] [] ex_this =
     Inl (AssertFailed, ex_this\<lparr>flux_space := \<lparr>fes_sequence = 7\<rparr>\<rparr>) \<and>
   ex_this\<lparr>flux_space := \<lparr>fes_sequence = 7\<rparr>\<rparr> \<noteq> ex_this"
  by (simp add: Kelly_ComputeEstimates_def ex_vector_ext_def ex_ext_def ex_this_def)

text \<open>
  C8, amended. \<open>LpErrorEstimator::ComputeEstimates\<close> with neither coefficient
  fails at \<open>MFEM_VERIFY\<close> with the estimator as it was.
  \<open>KellyErrorEstimator::ComputeEstimates\<close> with a solution whose \<open>vdim\<close> is not 1
  fails at \<open>MFEM_ASSERT\<close>, where assertions are compiled in, after the update
  of the flux space and before \<open>error_estimates\<close>, \<open>total_error\<close> or
  \<open>current_sequence\<close> are written.
\<close>

theorem precondition_failures:
  "(coef cfg = None \<and> vcoef cfg = None \<longrightarrow>
      Lp_ComputeEstimates mesh rcv cfg this = Inl (VerifyFailed, this)) \<and>
   (assert_enabled ext \<and> GetVDim ext \<noteq> 1 \<longrightarrow>
      Kelly_ComputeEstimates pmesh ext attributes others this =
        Inl (AssertFailed, this\<lparr>flux_space := Update ext (flux_space this)\<rparr>))"
  by (simp add: Lp_ComputeEstimates_def Kelly_ComputeEstimates_def)

theorem precondition_failures_witness:
  "coef (ex_cfg\<lparr>coef := None\<rparr>) = None \<and> vcoef (ex_cfg\<lparr>coef := None\<rparr>) = None \<and>
   Lp_ComputeEstimates ex_pmesh ex_rcv (ex_cfg\<lparr>coef := None\<rparr>) ex_this = Inl (VerifyFailed, ex_this) \<and>
   assert_enabled ex_vector_ext \<and> GetVDim ex_vector_ext \<noteq> 1 \<and>
   Kelly_ComputeEstimates ex_pmesh ex_vector_ext [] [] ex_this =
     Inl (AssertFailed, ex_this\<lparr>flux_space := Update ex_vector_ext (flux_space ex_this)\<rparr>)"
proof -
  have h: "coef (ex_cfg\<lparr>coef := None\<rparr>) = None \<and> vcoef (ex_cfg\<lparr>coef := None\<rparr>) = None"
    "assert_enabled ex_vector_ext \<and> GetVDim ex_vector_ext \<noteq> 1"
    by (simp_all add: ex_cfg_def ex_vector_ext_def ex_ext_def)
  note T = precondition_failures [where cfg = "ex_cfg\<lparr>coef := None\<rparr>" and ext = ex_vector_ext
      and mesh = ex_pmesh and rcv = ex_rcv and this = ex_this and pmesh = ex_pmesh
      and attributes = "[]" and others = "[]"]
  from T h show ?thesis by blast
qed

subsection \<open>The solver parameters of the L2ZZ estimator\<close>

text \<open>
  C10. Every call of \<open>L2ZienkiewiczZhuEstimator::ComputeEstimates\<close>, whatever
  the estimator and its settings hold, hands the tolerance \<open>1e-12\<close> and the
  iteration cap 200 to the recovery: its results are those of the recovery at
  these two values, and two recoveries that agree there give the same call.
\<close>

theorem l2zz_solver_parameters:
  "total_error (L2ZZ_ComputeEstimates mesh ext rcv cfg this) =
     L2ZZ_total rcv (local_norm_p cfg) (1 / 10 ^ 12) 200 \<and>
   error_estimates (L2ZZ_ComputeEstimates mesh ext rcv cfg this) =
     map (L2ZZ_element rcv (local_norm_p cfg) (1 / 10 ^ 12) 200) [0..<GetNE mesh] \<and>
   ((\<forall>p. L2ZZ_total rcv p (1 / 10 ^ 12) 200 = L2ZZ_total rcv' p (1 / 10 ^ 12) 200) \<and>
    (\<forall>p e. L2ZZ_element rcv p (1 / 10 ^ 12) 200 e = L2ZZ_element rcv' p (1 / 10 ^ 12) 200 e) \<longrightarrow>
    L2ZZ_ComputeEstimates mesh ext rcv cfg this = L2ZZ_ComputeEstimates mesh ext rcv' cfg this)"
  by (simp add: L2ZZ_ComputeEstimates_def L2ZZErrorEstimator_def Let_def)

theorem l2zz_solver_parameters_witness:
  "(\<forall>p. L2ZZ_total ex_rcv p (1 / 10 ^ 12) 200 = L2ZZ_total ex_rcv2 p (1 / 10 ^ 12) 200) \<and>
   (\<forall>p e. L2ZZ_element ex_rcv p (1 / 10 ^ 12) 200 e = L2ZZ_element ex_rcv2 p (1 / 10 ^ 12) 200 e) \<and>
   L2ZZ_total ex_rcv 1 (1 / 10 ^ 6) 100 \<noteq> L2ZZ_total ex_rcv2 1 (1 / 10 ^ 6) 100 \<and>
   L2ZZ_ComputeEstimates ex_pmesh ex_ext ex_rcv ex_cfg ex_this =
     L2ZZ_ComputeEstimates ex_pmesh ex_ext ex_rcv2 ex_cfg ex_this \<and>
   total_error (L2ZZ_ComputeEstimates ex_pmesh ex_ext ex_rcv ex_cfg ex_this) = 3"
proof -
  have h: "\<forall>p. L2ZZ_total ex_rcv p (1 / 10 ^ 12) 200 = L2ZZ_total ex_rcv2 p (1 / 10 ^ 12) 200"
    "\<forall>p e. L2ZZ_element ex_rcv p (1 / 10 ^ 12) 200 e = L2ZZ_element ex_rcv2 p (1 / 10 ^ 12) 200 e"
    "L2ZZ_total ex_rcv 1 (1 / 10 ^ 6) 100 \<noteq> L2ZZ_total ex_rcv2 1 (1 / 10 ^ 6) 100"
    "L2ZZ_total ex_rcv (local_norm_p ex_cfg) (1 / 10 ^ 12) 200 = 3"
    by (simp_all add: ex_rcv_def ex_rcv2_def)
  note T = l2zz_solver_parameters [where rcv = ex_rcv and rcv' = ex_rcv2 and mesh = ex_pmesh
      and ext = ex_ext and cfg = ex_cfg and this = ex_this]
  from T h(1,2) have eq: "L2ZZ_ComputeEstimates ex_pmesh ex_ext ex_rcv ex_cfg ex_this =
     L2ZZ_ComputeEstimates ex_pmesh ex_ext ex_rcv2 ex_cfg ex_this"
    by blast
  from T h(4) have tot: "total_error (L2ZZ_ComputeEstimates ex_pmesh ex_ext ex_rcv ex_cfg ex_this) = 3"
    by simp
  show ?thesis using h(1,2,3) eq tot by blast
qed

subsection \<open>The degree of the quadrature rules\<close>

text \<open>
  C6, as claimed: the rule of every shared face has at least twice the degree
  of the order of that face. On the mesh of three elements face 0 has order 1
  and the shared face, which is face 3, has order 2; the rule has degree 2.
\<close>

theorem shared_rule_below_face_order:
  "\<not> 2 * GetFaceOrder ex_ext (GetSharedFace ex_pmesh 0) \<le>
       rule_degree (shared_face_rule ex_pmesh ex_ext 0)"
  by (simp add: shared_face_rule_def ex_ext_def ex_pmesh_def)

text \<open>
  C6, amended. With integration rules of at least the degree asked for: the
  rule of a local face has at least twice the degree of the order of that
  face; the rule of a shared face is the one for twice the order of local face
  0, which needs local data only, and it has at least twice the degree of the
  order of the shared face where that order is at most the order of face 0.
\<close>

theorem quadrature_degree:
  "(\<forall>g n. n \<le> rule_degree (IntRules_Get ext g n)) \<longrightarrow>
   2 * GetFaceOrder ext f \<le> rule_degree (local_face_rule pmesh ext f) \<and>
   2 * GetFaceOrder ext 0 \<le> rule_degree (shared_face_rule pmesh ext sf) \<and>
   (GetFaceOrder ext (GetSharedFace pmesh sf) \<le> GetFaceOrder ext 0 \<longrightarrow>
      2 * GetFaceOrder ext (GetSharedFace pmesh sf) \<le> rule_degree (shared_face_rule pmesh ext sf)) \<and>
   shared_face_rule pmesh ext sf =
     IntRules_Get ext (FaceGeom (GetSharedFaceTransformations pmesh sf)) (2 * GetFaceOrder ext 0)"
proof
  assume a: "\<forall>g n. n \<le> rule_degree (IntRules_Get ext g n)"
  have 1: "2 * GetFaceOrder ext f \<le> rule_degree (local_face_rule pmesh ext f)"
    using a by (simp add: local_face_rule_def)
  have 2: "2 * GetFaceOrder ext 0 \<le> rule_degree (shared_face_rule pmesh ext sf)"
    using a by (simp add: shared_face_rule_def)
  show "2 * GetFaceOrder ext f \<le> rule_degree (local_face_rule pmesh ext f) \<and>
   2 * GetFaceOrder ext 0 \<le> rule_degree (shared_face_rule pmesh ext sf) \<and>
   (GetFaceOrder ext (GetSharedFace pmesh sf) \<le> GetFaceOrder ext 0 \<longrightarrow>
      2 * GetFaceOrder ext (GetSharedFace pmesh sf) \<le> rule_degree (shared_face_rule pmesh ext sf)) \<and>
   shared_face_rule pmesh ext sf =
     IntRules_Get ext (FaceGeom (GetSharedFaceTransformations pmesh sf)) (2 * GetFaceOrder ext 0)"
    using 1 2 by (auto simp: shared_face_rule_def)
qed

theorem quadrature_degree_witness:
  "(\<forall>g n. n \<le> rule_degree (IntRules_Get ex_uniform_ext g n)) \<and>
   GetFaceOrder ex_uniform_ext (GetSharedFace ex_pmesh 0) \<le> GetFaceOrder ex_uniform_ext 0 \<and>
   2 * GetFaceOrder ex_uniform_ext 1 \<le> rule_degree (local_face_rule ex_pmesh ex_uniform_ext 1) \<and>
   2 * GetFaceOrder ex_uniform_ext (GetSharedFace ex_pmesh 0) \<le>
     rule_degree (shared_face_rule ex_pmesh ex_uniform_ext 0) \<and>
   rule_degree (shared_face_rule ex_pmesh ex_uniform_ext 0) = 2"
proof -
  have h: "\<forall>g n. n \<le> rule_degree (IntRules_Get ex_uniform_ext g n)"
    "GetFaceOrder ex_uniform_ext (GetSharedFace ex_pmesh 0) \<le> GetFaceOrder ex_uniform_ext 0"
    by (simp_all add: ex_uniform_ext_def ex_ext_def)
  have d: "rule_degree (shared_face_rule ex_pmesh ex_uniform_ext 0) = 2"
    by (simp add: shared_face_rule_def ex_uniform_ext_def ex_ext_def)
  note T = quadrature_degree [where ext = ex_uniform_ext and pmesh = ex_pmesh and f = 1 and sf = 0]
  from T h d show ?thesis by blast
qed

subsection \<open>The normal of side 2 on an embedded mesh\<close>

lemma side1_point_embedded:
  "Dimension pmesh \<noteq> SpaceDimension pmesh \<Longrightarrow>
   side1_point pmesh ext flux FT fip st =
     (side1_value ext flux FT fip, st\<lparr>Face_IntPoint := Some fip, Loc1_IntPoint := Some fip\<rparr>)"
  by (simp add: side1_point_def face_normal_def side1_value_def)

lemma side2_point_embedded:
  "Dimension pmesh \<noteq> SpaceDimension pmesh \<Longrightarrow>
   side2_point pmesh ext flux FT set_loc1 fip jump st =
     (if set_loc1
      then (jump - side2_value ext flux FT (Some fip) fip,
            st\<lparr>Face_IntPoint := Some fip, Loc1_IntPoint := Some fip\<rparr>)
      else (jump - side2_value ext flux FT (Loc1_IntPoint st) fip,
            st\<lparr>Face_IntPoint := Some fip\<rparr>))"
  by (simp add: side2_point_def face_normal_def side2_value_def)

lemma side1_loop_embedded:
  "Dimension pmesh \<noteq> SpaceDimension pmesh \<Longrightarrow>
   side1_loop pmesh ext flux FT ps st =
     (map (side1_value ext flux FT) ps,
      if ps = [] then st
      else st\<lparr>Face_IntPoint := Some (last ps), Loc1_IntPoint := Some (last ps)\<rparr>)"
  by (induction ps arbitrary: st) (simp_all add: side1_point_embedded)

lemma side2_loop_embedded_local:
  "Dimension pmesh \<noteq> SpaceDimension pmesh \<Longrightarrow>
   side2_loop pmesh ext flux FT True ps (map g ps) st =
     (map (\<lambda>fip. g fip - side2_value ext flux FT (Some fip) fip) ps,
      if ps = [] then st
      else st\<lparr>Face_IntPoint := Some (last ps), Loc1_IntPoint := Some (last ps)\<rparr>)"
  by (induction ps arbitrary: st) (simp_all add: side2_point_embedded)

lemma side2_loop_embedded_shared:
  "Dimension pmesh \<noteq> SpaceDimension pmesh \<Longrightarrow>
   side2_loop pmesh ext flux FT False ps (map g ps) st =
     (map (\<lambda>fip. g fip - side2_value ext flux FT (Loc1_IntPoint st) fip) ps,
      if ps = [] then st else st\<lparr>Face_IntPoint := Some (last ps)\<rparr>)"
  by (induction ps arbitrary: st) (simp_all add: side2_point_embedded)

lemma face_jumps_embedded_local:
  assumes "Dimension pmesh \<noteq> SpaceDimension pmesh"
  shows "face_jumps pmesh ext flux FT True rule =
     map (\<lambda>fip. side1_value ext flux FT fip - side2_value ext flux FT (Some fip) fip)
       (IntPoint rule)"
  by (simp add: face_jumps_def side1_loop_embedded [OF assms] side2_loop_embedded_local [OF assms])

lemma face_jumps_embedded_shared:
  assumes "Dimension pmesh \<noteq> SpaceDimension pmesh"
  shows "face_jumps pmesh ext flux FT False rule =
     map (\<lambda>fip. side1_value ext flux FT fip -
                side2_value ext flux FT (Some (last (IntPoint rule))) fip)
       (IntPoint rule)"
  by (cases "IntPoint rule = []")
     (simp_all add: face_jumps_def side1_loop_embedded [OF assms]
        side2_loop_embedded_shared [OF assms] Let_def)

text \<open>
  C9. Where the dimension of the mesh is less than that of the space, the
  normal of side 2 is the negated pullback of the reference normal of
  \<open>Loc1.Transf\<close> through the adjugate Jacobian and the weight of element 1, in
  the local and in the shared pass; nothing of element 2 enters it. The local
  loop sets the point on \<open>Loc1.Transf\<close> first; the shared loop does not, so
  for every point of a shared face the Jacobian is the one at the point that
  the loop over side 1 set last.
\<close>

theorem embedded_side2_normal:
  "Dimension pmesh < SpaceDimension pmesh \<longrightarrow>
   side2_point pmesh ext flux FT True fip jump st =
     (jump - dot (GetVectorValue ext flux (Elem2No FT) (Loc2_Transform FT fip))
               (Neg (embedded_normal ext FT (Some fip))) * weight fip * Face_Weight FT (Some fip),
      st\<lparr>Face_IntPoint := Some fip, Loc1_IntPoint := Some fip\<rparr>) \<and>
   side2_point pmesh ext flux FT False fip jump st =
     (jump - dot (GetVectorValue ext flux (Elem2No FT) (Loc2_Transform FT fip))
               (Neg (embedded_normal ext FT (Loc1_IntPoint st))) * weight fip *
               Face_Weight FT (Some fip),
      st\<lparr>Face_IntPoint := Some fip\<rparr>) \<and>
   face_jumps pmesh ext flux FT True rule =
     map (\<lambda>fip. side1_value ext flux FT fip - side2_value ext flux FT (Some fip) fip)
       (IntPoint rule) \<and>
   face_jumps pmesh ext flux FT False rule =
     map (\<lambda>fip. side1_value ext flux FT fip -
                side2_value ext flux FT (Some (last (IntPoint rule))) fip)
       (IntPoint rule) \<and>
   embedded_normal ext FT p =
     vec_div (MultTranspose ext (Elem1_AdjugateJacobian FT)
                (CalcOrtho ext (Loc1_Transf_Jacobian FT p))) (Elem1_Weight FT) \<and>
   embedded_normal ext (FT\<lparr>Elem2No := n, Elem2_Attribute := a, Loc2_Transform := t\<rparr>) p =
     embedded_normal ext FT p"
proof
  assume "Dimension pmesh < SpaceDimension pmesh"
  then have ne: "Dimension pmesh \<noteq> SpaceDimension pmesh" by simp
  show "side2_point pmesh ext flux FT True fip jump st =
     (jump - dot (GetVectorValue ext flux (Elem2No FT) (Loc2_Transform FT fip))
               (Neg (embedded_normal ext FT (Some fip))) * weight fip * Face_Weight FT (Some fip),
      st\<lparr>Face_IntPoint := Some fip, Loc1_IntPoint := Some fip\<rparr>) \<and>
   side2_point pmesh ext flux FT False fip jump st =
     (jump - dot (GetVectorValue ext flux (Elem2No FT) (Loc2_Transform FT fip))
               (Neg (embedded_normal ext FT (Loc1_IntPoint st))) * weight fip *
               Face_Weight FT (Some fip),
      st\<lparr>Face_IntPoint := Some fip\<rparr>) \<and>
   face_jumps pmesh ext flux FT True rule =
     map (\<lambda>fip. side1_value ext flux FT fip - side2_value ext flux FT (Some fip) fip)
       (IntPoint rule) \<and>
   face_jumps pmesh ext flux FT False rule =
     map (\<lambda>fip. side1_value ext flux FT fip -
                side2_value ext flux FT (Some (last (IntPoint rule))) fip)
       (IntPoint rule) \<and>
   embedded_normal ext FT p =
     vec_div (MultTranspose ext (Elem1_AdjugateJacobian FT)
                (CalcOrtho ext (Loc1_Transf_Jacobian FT p))) (Elem1_Weight FT) \<and>
   embedded_normal ext (FT\<lparr>Elem2No := n, Elem2_Attribute := a, Loc2_Transform := t\<rparr>) p =
     embedded_normal ext FT p"
    using face_jumps_embedded_local [OF ne, of ext flux FT rule]
      face_jumps_embedded_shared [OF ne, of ext flux FT rule]
    by (simp add: side2_point_embedded [OF ne] side2_value_def embedded_normal_def)
qed

theorem embedded_side2_normal_witness:
  "Dimension ex_embedded_pmesh < SpaceDimension ex_embedded_pmesh \<and>
   face_jumps ex_embedded_pmesh ex_ext (compute_fluxes ex_pmesh ex_ext []) (ex_faces 0) True ex_rule2
     = [1, 2] \<and>
   face_jumps ex_embedded_pmesh ex_ext (ExchangeFaceNbrData ex_ext (compute_fluxes ex_pmesh ex_ext []))
     (GetSharedFaceTransformations ex_embedded_pmesh 0) False ex_rule2 = [3 / 2, 2]"
proof -
  have h: "Dimension ex_embedded_pmesh < SpaceDimension ex_embedded_pmesh"
    by (simp add: ex_embedded_pmesh_def ex_pmesh_def)
  note L = embedded_side2_normal [where pmesh = ex_embedded_pmesh and ext = ex_ext
      and flux = "compute_fluxes ex_pmesh ex_ext []" and FT = "ex_faces 0" and rule = ex_rule2,
      THEN mp, OF h]
  note S = embedded_side2_normal [where pmesh = ex_embedded_pmesh and ext = ex_ext
      and flux = "ExchangeFaceNbrData ex_ext (compute_fluxes ex_pmesh ex_ext [])"
      and FT = "GetSharedFaceTransformations ex_embedded_pmesh 0" and rule = ex_rule2,
      THEN mp, OF h]
  from L have 1: "face_jumps ex_embedded_pmesh ex_ext (compute_fluxes ex_pmesh ex_ext [])
      (ex_faces 0) True ex_rule2 =
     map (\<lambda>fip. side1_value ex_ext (compute_fluxes ex_pmesh ex_ext []) (ex_faces 0) fip -
                side2_value ex_ext (compute_fluxes ex_pmesh ex_ext []) (ex_faces 0) (Some fip) fip)
       (IntPoint ex_rule2)"
    by blast
  from S have 2: "face_jumps ex_embedded_pmesh ex_ext
      (ExchangeFaceNbrData ex_ext (compute_fluxes ex_pmesh ex_ext []))
      (GetSharedFaceTransformations ex_embedded_pmesh 0) False ex_rule2 =
     map (\<lambda>fip. side1_value ex_ext (ExchangeFaceNbrData ex_ext (compute_fluxes ex_pmesh ex_ext []))
                  (GetSharedFaceTransformations ex_embedded_pmesh 0) fip -
                side2_value ex_ext (ExchangeFaceNbrData ex_ext (compute_fluxes ex_pmesh ex_ext []))
                  (GetSharedFaceTransformations ex_embedded_pmesh 0)
                  (Some (last (IntPoint ex_rule2))) fip)
       (IntPoint ex_rule2)"
    by blast
  have a: "map (\<lambda>fip. side1_value ex_ext (compute_fluxes ex_pmesh ex_ext []) (ex_faces 0) fip -
                side2_value ex_ext (compute_fluxes ex_pmesh ex_ext []) (ex_faces 0) (Some fip) fip)
       (IntPoint ex_rule2) = [1, 2]"
    by (simp add: side1_value_def side2_value_def embedded_normal_def ex_rule2_def ex_ip2_def
          ex_defs dot_def Neg_def vec_div_def compute_fluxes_def upt_rec flux_element_def
          excluded_def)
  have b: "map (\<lambda>fip. side1_value ex_ext (ExchangeFaceNbrData ex_ext (compute_fluxes ex_pmesh ex_ext []))
                  (GetSharedFaceTransformations ex_embedded_pmesh 0) fip -
                side2_value ex_ext (ExchangeFaceNbrData ex_ext (compute_fluxes ex_pmesh ex_ext []))
                  (GetSharedFaceTransformations ex_embedded_pmesh 0)
                  (Some (last (IntPoint ex_rule2))) fip)
       (IntPoint ex_rule2) = [3 / 2, 2]"
    by (simp add: side1_value_def side2_value_def embedded_normal_def ex_rule2_def ex_ip2_def
          ex_embedded_pmesh_def ex_defs dot_def Neg_def vec_div_def compute_fluxes_def upt_rec
          flux_element_def excluded_def)
  show ?thesis using h 1 2 a b by simp
qed


end
